theory Spec2Isabelle
  imports Complex_Main "HOL-Library.Word" "HOL-Library.Signed_Division"
begin

section \<open>The recording state machine (store/slices/audioSlice.ts)\<close>

text \<open>
  The slice state of the Redux store and every reducer of \<^verbatim>\<open>audioSlice\<close>, one HOL
  function per reducer, under the reducer's own name. A reducer mutates a draft of the
  state; here it takes the state and returns the new one. \<^verbatim>\<open>console.warn\<close> has no
  effect on the state and is left out. \<^verbatim>\<open>Date.now()\<close> is an argument.
  The types \<^verbatim>\<open>Blob\<close>, \<^verbatim>\<open>VocalAnalysis\<close> and \<^verbatim>\<open>AudioMetrics\<close> are opaque to the
  reducers and are type parameters.
\<close>

datatype AudioState = Idle | Initializing | Recording | Analyzing | Paused | Error

fun statusText :: "AudioState \<Rightarrow> string" where
  "statusText Idle = ''idle''"
| "statusText Initializing = ''initializing''"
| "statusText Recording = ''recording''"
| "statusText Analyzing = ''analyzing''"
| "statusText Paused = ''paused''"
| "statusText Error = ''error''"

record ('blob, 'analysis) RecordingSession =
  sessionId :: string
  startTime :: int
  duration :: real
  audioBlob :: "'blob option"
  analysis :: "'analysis option"

record AudioSettings =
  sampleRate :: real
  bufferSize :: real
  fftSize :: real
  channelCount :: real
  echoCancellation :: bool
  noiseSuppression :: bool
  autoGainControl :: bool

text \<open>\<^verbatim>\<open>Partial<AudioSettings>\<close>: every field may be missing.\<close>

record PartialAudioSettings =
  sampleRate_opt :: "real option"
  bufferSize_opt :: "real option"
  fftSize_opt :: "real option"
  channelCount_opt :: "real option"
  echoCancellation_opt :: "bool option"
  noiseSuppression_opt :: "bool option"
  autoGainControl_opt :: "bool option"

record MediaDeviceInfo =
  deviceId :: string
  kind :: string
  label :: string

record DeviceState =
  available :: "MediaDeviceInfo list"
  selected :: "string option"

record ('blob, 'analysis, 'metrics) AudioSliceState =
  status :: AudioState
  isRecording :: bool
  isPaused :: bool
  currentSession :: "('blob, 'analysis) RecordingSession option"
  audioSettings :: AudioSettings
  currentMetrics :: "'metrics option"
  error :: "string option"
  devices :: DeviceState

subsection \<open>State transition validation helpers\<close>

definition canInitialize :: "AudioState \<Rightarrow> bool" where
  "canInitialize st = (st = Idle \<or> st = Error)"

definition canStartRecording :: "AudioState \<Rightarrow> bool" where
  "canStartRecording st = (st = Idle)"

definition canPauseRecording :: "AudioState \<Rightarrow> bool" where
  "canPauseRecording st = (st = Recording)"

definition canResumeRecording :: "AudioState \<Rightarrow> bool" where
  "canResumeRecording st = (st = Paused)"

definition canStopRecording :: "AudioState \<Rightarrow> bool" where
  "canStopRecording st = (st = Recording \<or> st = Paused)"

definition canAnalyze :: "AudioState \<Rightarrow> bool" where
  "canAnalyze st = (st = Recording \<or> st = Paused)"

text \<open>\<^verbatim>\<open>DEFAULT_AUDIO_SETTINGS\<close> of utils/constants.ts.\<close>

definition defaultAudioSettings :: AudioSettings where
  "defaultAudioSettings =
     \<lparr>sampleRate = 44100, bufferSize = 4096, fftSize = 2048, channelCount = 1,
      echoCancellation = True, noiseSuppression = True, autoGainControl = True\<rparr>"

definition initialState :: "('blob, 'analysis, 'metrics) AudioSliceState" where
  "initialState =
     \<lparr>status = Idle, isRecording = False, isPaused = False, currentSession = None,
      audioSettings = defaultAudioSettings, currentMetrics = None, error = None,
      devices = \<lparr>available = [], selected = None\<rparr>\<rparr>"

text \<open>
  \<^verbatim>\<open>action.payload || fallback\<close> on a payload of type \<^verbatim>\<open>string | undefined\<close>: the
  fallback is taken when the payload is undefined or the empty string.
\<close>

definition orElse :: "string option \<Rightarrow> string \<Rightarrow> string" where
  "orElse payload fallback =
     (case payload of None \<Rightarrow> fallback | Some m \<Rightarrow> if m = [] then fallback else m)"

subsection \<open>Reducers\<close>

definition initialize ::
  "('b, 'a, 'm) AudioSliceState \<Rightarrow> ('b, 'a, 'm) AudioSliceState" where
  "initialize s =
     (if \<not> canInitialize (status s) then s
      else s\<lparr>status := Initializing, error := None\<rparr>)"

definition initializeSuccess ::
  "('b, 'a, 'm) AudioSliceState \<Rightarrow> ('b, 'a, 'm) AudioSliceState" where
  "initializeSuccess s =
     (if status s \<noteq> Initializing then s
      else s\<lparr>status := Idle, error := None\<rparr>)"

definition initializeError ::
  "string \<Rightarrow> ('b, 'a, 'm) AudioSliceState \<Rightarrow> ('b, 'a, 'm) AudioSliceState" where
  "initializeError payload s =
     (if status s \<noteq> Initializing then s
      else s\<lparr>status := Error, error := Some payload\<rparr>)"

definition startRecording ::
  "string \<Rightarrow> int \<Rightarrow> ('b, 'a, 'm) AudioSliceState \<Rightarrow> ('b, 'a, 'm) AudioSliceState" where
  "startRecording sid now s =
     (if \<not> canStartRecording (status s) then
        s\<lparr>error := Some (''Cannot start recording: current state is '' @ statusText (status s))\<rparr>
      else if isRecording s then s\<lparr>error := Some ''Already recording''\<rparr>
      else s\<lparr>status := Recording, isRecording := True, isPaused := False,
             currentSession := Some \<lparr>sessionId = sid, startTime = now, duration = 0,
                                     audioBlob = None, analysis = None\<rparr>,
             error := None\<rparr>)"

definition pauseRecording ::
  "('b, 'a, 'm) AudioSliceState \<Rightarrow> ('b, 'a, 'm) AudioSliceState" where
  "pauseRecording s =
     (if \<not> canPauseRecording (status s) then
        s\<lparr>error := Some (''Cannot pause: current state is '' @ statusText (status s))\<rparr>
      else if \<not> isRecording s then s\<lparr>error := Some ''Not currently recording''\<rparr>
      else if isPaused s then s\<lparr>error := Some ''Already paused''\<rparr>
      else s\<lparr>status := Paused, isPaused := True\<rparr>)"

definition resumeRecording ::
  "('b, 'a, 'm) AudioSliceState \<Rightarrow> ('b, 'a, 'm) AudioSliceState" where
  "resumeRecording s =
     (if \<not> canResumeRecording (status s) then
        s\<lparr>error := Some (''Cannot resume: current state is '' @ statusText (status s))\<rparr>
      else if \<not> isPaused s then s\<lparr>error := Some ''Not currently paused''\<rparr>
      else s\<lparr>status := Recording, isPaused := False\<rparr>)"

definition stopRecording ::
  "real \<Rightarrow> 'b option \<Rightarrow> ('b, 'a, 'm) AudioSliceState \<Rightarrow> ('b, 'a, 'm) AudioSliceState" where
  "stopRecording dur blob s =
     (if \<not> canStopRecording (status s) then
        s\<lparr>error := Some (''Cannot stop recording: current state is '' @ statusText (status s))\<rparr>
      else if \<not> isRecording s then s\<lparr>error := Some ''Not currently recording''\<rparr>
      else s\<lparr>status := Analyzing, isRecording := False, isPaused := False,
             currentSession :=
               (case currentSession s of
                  None \<Rightarrow> None
                | Some sess \<Rightarrow> Some (sess\<lparr>duration := dur, audioBlob := blob\<rparr>))\<rparr>)"

definition updateMetrics ::
  "'m \<Rightarrow> ('b, 'a, 'm) AudioSliceState \<Rightarrow> ('b, 'a, 'm) AudioSliceState" where
  "updateMetrics payload s =
     (if status s \<noteq> Recording \<and> status s \<noteq> Paused then s
      else s\<lparr>currentMetrics := Some payload\<rparr>)"

definition updateSessionDuration ::
  "real \<Rightarrow> ('b, 'a, 'm) AudioSliceState \<Rightarrow> ('b, 'a, 'm) AudioSliceState" where
  "updateSessionDuration payload s =
     (case currentSession s of
        None \<Rightarrow> s
      | Some sess \<Rightarrow>
          if status s \<noteq> Recording \<and> status s \<noteq> Paused then s
          else s\<lparr>currentSession := Some (sess\<lparr>duration := payload\<rparr>)\<rparr>)"

definition setAnalysis ::
  "'a option \<Rightarrow> ('b, 'a, 'm) AudioSliceState \<Rightarrow> ('b, 'a, 'm) AudioSliceState" where
  "setAnalysis payload s =
     (if status s \<noteq> Analyzing then s
      else case currentSession s of
        None \<Rightarrow> s\<lparr>status := Idle\<rparr>
      | Some sess \<Rightarrow> s\<lparr>currentSession := Some (sess\<lparr>analysis := payload\<rparr>), status := Idle\<rparr>)"

definition startAnalysis ::
  "('b, 'a, 'm) AudioSliceState \<Rightarrow> ('b, 'a, 'm) AudioSliceState" where
  "startAnalysis s =
     (if \<not> canAnalyze (status s) then
        s\<lparr>error := Some (''Cannot analyze: current state is '' @ statusText (status s))\<rparr>
      else if currentSession s = None then s\<lparr>error := Some ''No active recording session''\<rparr>
      else s\<lparr>status := Analyzing, isRecording := False, isPaused := False\<rparr>)"

text \<open>\<^verbatim>\<open>!state.devices.selected\<close> holds for null and for the empty string.\<close>

definition setDevices ::
  "MediaDeviceInfo list \<Rightarrow> ('b, 'a, 'm) AudioSliceState \<Rightarrow> ('b, 'a, 'm) AudioSliceState" where
  "setDevices payload s =
     (let d = (devices s)\<lparr>available := payload\<rparr>
      in case payload of
           [] \<Rightarrow> s\<lparr>devices := d\<rparr>
         | dev # _ \<Rightarrow>
             if selected d = None \<or> selected d = Some []
             then s\<lparr>devices := d\<lparr>selected := Some (deviceId dev)\<rparr>\<rparr>
             else s\<lparr>devices := d\<rparr>)"

definition selectDevice ::
  "string \<Rightarrow> ('b, 'a, 'm) AudioSliceState \<Rightarrow> ('b, 'a, 'm) AudioSliceState" where
  "selectDevice payload s = s\<lparr>devices := (devices s)\<lparr>selected := Some payload\<rparr>\<rparr>"

definition mergeSettings :: "AudioSettings \<Rightarrow> PartialAudioSettings \<Rightarrow> AudioSettings" where
  "mergeSettings cur p =
     \<lparr>sampleRate = (case sampleRate_opt p of None \<Rightarrow> sampleRate cur | Some v \<Rightarrow> v),
      bufferSize = (case bufferSize_opt p of None \<Rightarrow> bufferSize cur | Some v \<Rightarrow> v),
      fftSize = (case fftSize_opt p of None \<Rightarrow> fftSize cur | Some v \<Rightarrow> v),
      channelCount = (case channelCount_opt p of None \<Rightarrow> channelCount cur | Some v \<Rightarrow> v),
      echoCancellation =
        (case echoCancellation_opt p of None \<Rightarrow> echoCancellation cur | Some v \<Rightarrow> v),
      noiseSuppression =
        (case noiseSuppression_opt p of None \<Rightarrow> noiseSuppression cur | Some v \<Rightarrow> v),
      autoGainControl =
        (case autoGainControl_opt p of None \<Rightarrow> autoGainControl cur | Some v \<Rightarrow> v)\<rparr>"

definition updateSettings ::
  "PartialAudioSettings \<Rightarrow> ('b, 'a, 'm) AudioSliceState \<Rightarrow> ('b, 'a, 'm) AudioSliceState" where
  "updateSettings payload s = s\<lparr>audioSettings := mergeSettings (audioSettings s) payload\<rparr>"

definition resetSettings ::
  "('b, 'a, 'm) AudioSliceState \<Rightarrow> ('b, 'a, 'm) AudioSliceState" where
  "resetSettings s = s\<lparr>audioSettings := defaultAudioSettings\<rparr>"

definition setError ::
  "string \<Rightarrow> ('b, 'a, 'm) AudioSliceState \<Rightarrow> ('b, 'a, 'm) AudioSliceState" where
  "setError payload s =
     s\<lparr>status := Error, error := Some payload, isRecording := False, isPaused := False\<rparr>"

definition clearError ::
  "('b, 'a, 'm) AudioSliceState \<Rightarrow> ('b, 'a, 'm) AudioSliceState" where
  "clearError s =
     (let s1 = s\<lparr>error := None\<rparr>
      in if status s1 = Error then s1\<lparr>status := Idle\<rparr> else s1)"

definition reset ::
  "('b, 'a, 'm) AudioSliceState \<Rightarrow> ('b, 'a, 'm) AudioSliceState" where
  "reset s =
     s\<lparr>status := Idle, isRecording := False, isPaused := False, currentSession := None,
       currentMetrics := None, error := None\<rparr>"

definition resetSession ::
  "('b, 'a, 'm) AudioSliceState \<Rightarrow> ('b, 'a, 'm) AudioSliceState" where
  "resetSession s =
     s\<lparr>currentSession := None, currentMetrics := None, isRecording := False,
       isPaused := False, status := Idle\<rparr>"

subsection \<open>Extra reducers: the three phases of the async thunks\<close>

definition initializeAudio_pending ::
  "('b, 'a, 'm) AudioSliceState \<Rightarrow> ('b, 'a, 'm) AudioSliceState" where
  "initializeAudio_pending s =
     (if \<not> canInitialize (status s) then s
      else s\<lparr>status := Initializing, error := None\<rparr>)"

definition initializeAudio_fulfilled ::
  "('b, 'a, 'm) AudioSliceState \<Rightarrow> ('b, 'a, 'm) AudioSliceState" where
  "initializeAudio_fulfilled s =
     (if status s \<noteq> Initializing then s
      else s\<lparr>status := Idle, error := None\<rparr>)"

definition initializeAudio_rejected ::
  "string option \<Rightarrow> ('b, 'a, 'm) AudioSliceState \<Rightarrow> ('b, 'a, 'm) AudioSliceState" where
  "initializeAudio_rejected payload s =
     (if status s \<noteq> Initializing then s
      else s\<lparr>status := Error, error := Some (orElse payload ''Failed to initialize audio'')\<rparr>)"

definition fetchAudioDevices_pending ::
  "('b, 'a, 'm) AudioSliceState \<Rightarrow> ('b, 'a, 'm) AudioSliceState" where
  "fetchAudioDevices_pending s = (if status s = Error then s else s)"

definition fetchAudioDevices_fulfilled ::
  "MediaDeviceInfo list \<Rightarrow> ('b, 'a, 'm) AudioSliceState \<Rightarrow> ('b, 'a, 'm) AudioSliceState" where
  "fetchAudioDevices_fulfilled payload s = setDevices payload s"

definition fetchAudioDevices_rejected ::
  "string option \<Rightarrow> ('b, 'a, 'm) AudioSliceState \<Rightarrow> ('b, 'a, 'm) AudioSliceState" where
  "fetchAudioDevices_rejected payload s = s"

definition analyzeRecording_pending ::
  "('b, 'a, 'm) AudioSliceState \<Rightarrow> ('b, 'a, 'm) AudioSliceState" where
  "analyzeRecording_pending s = (if status s \<noteq> Analyzing then s else s)"

definition analyzeRecording_fulfilled ::
  "'a option \<Rightarrow> ('b, 'a, 'm) AudioSliceState \<Rightarrow> ('b, 'a, 'm) AudioSliceState" where
  "analyzeRecording_fulfilled payload s =
     (if status s \<noteq> Analyzing then s
      else case currentSession s of
        None \<Rightarrow> s\<lparr>status := Idle\<rparr>
      | Some sess \<Rightarrow> s\<lparr>currentSession := Some (sess\<lparr>analysis := payload\<rparr>), status := Idle\<rparr>)"

definition analyzeRecording_rejected ::
  "string option \<Rightarrow> ('b, 'a, 'm) AudioSliceState \<Rightarrow> ('b, 'a, 'm) AudioSliceState" where
  "analyzeRecording_rejected payload s =
     (if status s \<noteq> Analyzing then s
      else s\<lparr>status := Error, error := Some (orElse payload ''Failed to analyze recording'')\<rparr>)"

subsection \<open>Actions and the slice reducer\<close>

datatype ('b, 'a, 'm) Action =
    Initialize
  | InitializeSuccess
  | InitializeError string
  | StartRecording string int
  | PauseRecording
  | ResumeRecording
  | StopRecording real "'b option"
  | UpdateMetrics 'm
  | UpdateSessionDuration real
  | SetAnalysis "'a option"
  | StartAnalysis
  | SetDevices "MediaDeviceInfo list"
  | SelectDevice string
  | UpdateSettings PartialAudioSettings
  | ResetSettings
  | SetError string
  | ClearError
  | Reset
  | ResetSession
  | InitializeAudioPending
  | InitializeAudioFulfilled
  | InitializeAudioRejected "string option"
  | FetchAudioDevicesPending
  | FetchAudioDevicesFulfilled "MediaDeviceInfo list"
  | FetchAudioDevicesRejected "string option"
  | AnalyzeRecordingPending
  | AnalyzeRecordingFulfilled "'a option"
  | AnalyzeRecordingRejected "string option"

fun reducer ::
  "('b, 'a, 'm) AudioSliceState \<Rightarrow> ('b, 'a, 'm) Action \<Rightarrow> ('b, 'a, 'm) AudioSliceState" where
  "reducer s Initialize = initialize s"
| "reducer s InitializeSuccess = initializeSuccess s"
| "reducer s (InitializeError m) = initializeError m s"
| "reducer s (StartRecording sid now) = startRecording sid now s"
| "reducer s PauseRecording = pauseRecording s"
| "reducer s ResumeRecording = resumeRecording s"
| "reducer s (StopRecording d b) = stopRecording d b s"
| "reducer s (UpdateMetrics m) = updateMetrics m s"
| "reducer s (UpdateSessionDuration d) = updateSessionDuration d s"
| "reducer s (SetAnalysis a) = setAnalysis a s"
| "reducer s StartAnalysis = startAnalysis s"
| "reducer s (SetDevices ds) = setDevices ds s"
| "reducer s (SelectDevice d) = selectDevice d s"
| "reducer s (UpdateSettings p) = updateSettings p s"
| "reducer s ResetSettings = resetSettings s"
| "reducer s (SetError m) = setError m s"
| "reducer s ClearError = clearError s"
| "reducer s Reset = reset s"
| "reducer s ResetSession = resetSession s"
| "reducer s InitializeAudioPending = initializeAudio_pending s"
| "reducer s InitializeAudioFulfilled = initializeAudio_fulfilled s"
| "reducer s (InitializeAudioRejected m) = initializeAudio_rejected m s"
| "reducer s FetchAudioDevicesPending = fetchAudioDevices_pending s"
| "reducer s (FetchAudioDevicesFulfilled ds) = fetchAudioDevices_fulfilled ds s"
| "reducer s (FetchAudioDevicesRejected m) = fetchAudioDevices_rejected m s"
| "reducer s AnalyzeRecordingPending = analyzeRecording_pending s"
| "reducer s (AnalyzeRecordingFulfilled a) = analyzeRecording_fulfilled a s"
| "reducer s (AnalyzeRecordingRejected m) = analyzeRecording_rejected m s"

text \<open>The state after a sequence of dispatched actions, from the initial state.\<close>

definition run :: "('b, 'a, 'm) Action list \<Rightarrow> ('b, 'a, 'm) AudioSliceState" where
  "run acts = foldl reducer initialState acts"

text \<open>
  The guard of an action: the conjunction of the checks its reducer makes before it
  changes anything (the status helper and the flag checks that follow it). Actions
  whose reducer has no check have the guard \<open>True\<close>.
\<close>

fun guard :: "('b, 'a, 'm) Action \<Rightarrow> ('b, 'a, 'm) AudioSliceState \<Rightarrow> bool" where
  "guard Initialize s = canInitialize (status s)"
| "guard InitializeSuccess s = (status s = Initializing)"
| "guard (InitializeError m) s = (status s = Initializing)"
| "guard (StartRecording sid now) s = (canStartRecording (status s) \<and> \<not> isRecording s)"
| "guard PauseRecording s = (canPauseRecording (status s) \<and> isRecording s \<and> \<not> isPaused s)"
| "guard ResumeRecording s = (canResumeRecording (status s) \<and> isPaused s)"
| "guard (StopRecording d b) s = (canStopRecording (status s) \<and> isRecording s)"
| "guard (UpdateMetrics m) s = (status s = Recording \<or> status s = Paused)"
| "guard (SetAnalysis a) s = (status s = Analyzing)"
| "guard ClearError s = (status s = Error)"
| "guard _ s = True"

text \<open>The ten user-triggered actions.\<close>

fun userTriggered :: "('b, 'a, 'm) Action \<Rightarrow> bool" where
  "userTriggered Initialize = True"
| "userTriggered InitializeSuccess = True"
| "userTriggered (InitializeError m) = True"
| "userTriggered (StartRecording sid now) = True"
| "userTriggered PauseRecording = True"
| "userTriggered ResumeRecording = True"
| "userTriggered (StopRecording d b) = True"
| "userTriggered (UpdateMetrics m) = True"
| "userTriggered (SetAnalysis a) = True"
| "userTriggered ClearError = True"
| "userTriggered _ = False"

lemmas reducer_defs =
  initialize_def initializeSuccess_def initializeError_def startRecording_def
  pauseRecording_def resumeRecording_def stopRecording_def updateMetrics_def
  updateSessionDuration_def setAnalysis_def startAnalysis_def setDevices_def
  selectDevice_def updateSettings_def resetSettings_def setError_def clearError_def
  reset_def resetSession_def initializeAudio_pending_def initializeAudio_fulfilled_def
  initializeAudio_rejected_def fetchAudioDevices_pending_def
  fetchAudioDevices_fulfilled_def fetchAudioDevices_rejected_def
  analyzeRecording_pending_def analyzeRecording_fulfilled_def
  analyzeRecording_rejected_def

lemmas guard_defs =
  canInitialize_def canStartRecording_def canPauseRecording_def canResumeRecording_def
  canStopRecording_def canAnalyze_def

text \<open>The statuses in which a recording session is live.\<close>

definition liveStatus :: "AudioState \<Rightarrow> bool" where
  "liveStatus st = (st = Recording \<or> st = Paused \<or> st = Analyzing)"

section \<open>Pitch detection (utils/audio/pitchDetection.ts)\<close>

text \<open>
  JavaScript numbers are modelled as real numbers: the rounding of the double and
  single precision formats is left out, and so are NaN and the infinities, except where
  the source depends on them (an out-of-range read of a typed array is \<^verbatim>\<open>undefined\<close>, the
  peak value starts at \<^verbatim>\<open>-Infinity\<close>, \<^verbatim>\<open>0/0\<close> for an empty window): those are written out
  as \<open>None\<close> or as a branch of their own.

  The module utils/audio/constants.ts is imported by the source and is not part of the
  sources at hand. Its values are the fields of a record that every function takes as
  its first argument. The functions divide by \<^verbatim>\<open>MIN_FREQUENCY\<close> and \<^verbatim>\<open>MAX_FREQUENCY\<close>;
  both are positive in any configuration the source is meant for.
\<close>

record AudioConstants =
  MIN_FREQUENCY :: real
  MAX_FREQUENCY :: real
  MIN_CONFIDENCE_THRESHOLD :: real
  PITCH_SMOOTHING_BUFFER_SIZE :: nat
  NOTE_NAMES :: "string list"
  NOTE_FREQUENCIES :: "string \<rightharpoonup> real"

text \<open>
  Modelled from the spec: the constants \<^verbatim>\<open>A4_FREQUENCY\<close> and \<^verbatim>\<open>SEMITONES_PER_OCTAVE\<close> of
  the missing module utils/audio/constants.ts. The spec gives the semitone offset as
  \<^verbatim>\<open>12 * log2(freq/440)\<close>.
\<close>

definition A4_FREQUENCY :: real where
  "A4_FREQUENCY = 440"

definition SEMITONES_PER_OCTAVE :: int where
  "SEMITONES_PER_OCTAVE = 12"

subsection \<open>The smoothing buffer\<close>

record PitchSmoothingBuffer =
  buffer :: "real list"
  maxSize :: nat

definition newPitchSmoothingBuffer :: "nat \<Rightarrow> PitchSmoothingBuffer" where
  "newPitchSmoothingBuffer n = \<lparr>buffer = [], maxSize = n\<rparr>"

text \<open>\<^verbatim>\<open>push\<close>, then one \<^verbatim>\<open>shift\<close> when the length is over \<^verbatim>\<open>maxSize\<close>.\<close>

definition add :: "real \<Rightarrow> PitchSmoothingBuffer \<Rightarrow> PitchSmoothingBuffer" where
  "add freq b =
     (let pushed = buffer b @ [freq]
      in if length pushed > maxSize b then b\<lparr>buffer := tl pushed\<rparr>
         else b\<lparr>buffer := pushed\<rparr>)"

definition getSmoothed :: "PitchSmoothingBuffer \<Rightarrow> real" where
  "getSmoothed b =
     (if length (buffer b) = 0 then 0
      else foldl (\<lambda>acc val. acc + val) 0 (buffer b) / real (length (buffer b)))"

definition clear :: "PitchSmoothingBuffer \<Rightarrow> PitchSmoothingBuffer" where
  "clear b = b\<lparr>buffer := []\<rparr>"

text \<open>The module's global instance, as constructed.\<close>

definition smoothingBuffer :: "AudioConstants \<Rightarrow> PitchSmoothingBuffer" where
  "smoothingBuffer c = newPitchSmoothingBuffer (PITCH_SMOOTHING_BUFFER_SIZE c)"

subsection \<open>Normalisation and autocorrelation\<close>

definition normalizeBuffer :: "real list \<Rightarrow> real list" where
  "normalizeBuffer buf =
     (let mx = foldl (\<lambda>m x. if \<bar>x\<bar> > m then \<bar>x\<bar> else m) 0 buf
      in if mx > 0 then map (\<lambda>x. x / mx) buf else map (\<lambda>x. 0) buf)"

text \<open>\<^verbatim>\<open>new Float32Array(n)\<close> throws a RangeError for a negative length.\<close>

datatype js_error = RangeError

definition autocorrelate :: "AudioConstants \<Rightarrow> real list \<Rightarrow> real \<Rightarrow> js_error + real list" where
  "autocorrelate c buf rate =
     (let size = length buf;
          maxSamples = \<lfloor>rate / MIN_FREQUENCY c\<rfloor>
      in if maxSamples < 0 then Inl RangeError
         else Inr (map (\<lambda>lag. foldl (\<lambda>sum i. sum + buf ! i * buf ! (i + lag)) 0 [0..<size - lag])
                     [0..<nat maxSamples]))"

subsection \<open>Peak picking\<close>

text \<open>
  A read of a typed array: \<^verbatim>\<open>undefined\<close> (here \<open>None\<close>) outside the array. A comparison
  with \<^verbatim>\<open>undefined\<close> is false.
\<close>

definition elemAt :: "real list \<Rightarrow> int \<Rightarrow> real option" where
  "elemAt xs i = (if 0 \<le> i \<and> i < int (length xs) then Some (xs ! nat i) else None)"

fun gt :: "real option \<Rightarrow> real option \<Rightarrow> bool" where
  "gt (Some a) (Some b) = (a > b)"
| "gt _ _ = False"

text \<open>The first loop of \<^verbatim>\<open>findPeak\<close>: the first lag from \<open>i\<close> on, below \<open>maxSamples\<close>, whose
  value is negative; \<open>None\<close> when the loop ends without a \<^verbatim>\<open>break\<close>.\<close>

function firstNegative :: "real list \<Rightarrow> int \<Rightarrow> int \<Rightarrow> int option" where
  "firstNegative ac i maxSamples =
     (if i < maxSamples
      then (if gt (Some 0) (elemAt ac i) then Some i else firstNegative ac (i + 1) maxSamples)
      else None)"
  by pat_completeness auto
termination
  by (relation "measure (\<lambda>(ac, i, maxSamples). nat (maxSamples - i))") auto

text \<open>
  The second loop. Its two variables \<^verbatim>\<open>peakIndex\<close> and \<^verbatim>\<open>peakValue\<close> are assigned together:
  \<open>None\<close> is their initial value (\<^verbatim>\<open>-1\<close> and \<^verbatim>\<open>-Infinity\<close>, below every array value),
  \<open>Some (i, v)\<close> the value after an assignment. The index \<^verbatim>\<open>-1\<close> itself is never assigned,
  as the read at \<^verbatim>\<open>-1\<close> is \<^verbatim>\<open>undefined\<close>.
\<close>

function peakLoop :: "real list \<Rightarrow> int \<Rightarrow> int \<Rightarrow> (int \<times> real) option \<Rightarrow> (int \<times> real) option" where
  "peakLoop ac i bound peak =
     (if i < bound
      then (if gt (elemAt ac i) (elemAt ac (i - 1)) \<and> gt (elemAt ac i) (elemAt ac (i + 1)) \<and>
               (case peak of None \<Rightarrow> True | Some (peakIndex, peakValue) \<Rightarrow> gt (elemAt ac i) (Some peakValue))
            then peakLoop ac (i + 1) bound (Some (i, ac ! nat i))
            else peakLoop ac (i + 1) bound peak)
      else peak)"
  by pat_completeness auto
termination
  by (relation "measure (\<lambda>(ac, i, bound, peak). nat (bound - i))") auto

definition zeroCrossing :: "AudioConstants \<Rightarrow> real list \<Rightarrow> real \<Rightarrow> int" where
  "zeroCrossing c ac rate =
     (let minSamples = \<lfloor>rate / MAX_FREQUENCY c\<rfloor>;
          maxSamples = \<lfloor>rate / MIN_FREQUENCY c\<rfloor>
      in case firstNegative ac minSamples maxSamples of None \<Rightarrow> minSamples | Some i \<Rightarrow> i)"

text \<open>The result is the pair of \<^verbatim>\<open>index\<close> and \<^verbatim>\<open>confidence\<close>, or \<open>None\<close> for \<^verbatim>\<open>null\<close>.\<close>

definition findPeak :: "AudioConstants \<Rightarrow> real list \<Rightarrow> real \<Rightarrow> (int \<times> real) option" where
  "findPeak c ac rate =
     (let maxSamples = \<lfloor>rate / MIN_FREQUENCY c\<rfloor>
      in case peakLoop ac (zeroCrossing c ac rate) (maxSamples - 1) None of
           None \<Rightarrow> None
         | Some (peakIndex, peakValue) \<Rightarrow>
             let maxAutocorrelation = elemAt ac 0;
                 confidence = (if gt maxAutocorrelation (Some 0)
                               then peakValue / (case maxAutocorrelation of Some m \<Rightarrow> m | None \<Rightarrow> 1)
                               else 0)
             in Some (peakIndex, confidence))"

text \<open>
  The division is by \<open>y0 - 2 * y1 + y2\<close>, which is negative whenever the index is a strict
  local maximum; \<^verbatim>\<open>detectPitch\<close> passes no other index.
\<close>

definition parabolicInterpolation :: "real list \<Rightarrow> int \<Rightarrow> real" where
  "parabolicInterpolation ac peakIndex =
     (if peakIndex \<le> 0 \<or> peakIndex \<ge> int (length ac) - 1 then real_of_int peakIndex
      else let y0 = ac ! nat (peakIndex - 1);
               y1 = ac ! nat peakIndex;
               y2 = ac ! nat (peakIndex + 1);
               delta = 0.5 * (y0 - y2) / (y0 - 2 * y1 + y2)
           in real_of_int peakIndex + delta)"

section \<open>Note mapping (utils/audio/frequency.ts)\<close>

text \<open>The field \<^verbatim>\<open>note\<close> of the source is \<open>noteLabel\<close> here.\<close>

record NoteData =
  noteLabel :: string
  cents :: int
  frequency :: real
  octave :: int

text \<open>\<^verbatim>\<open>Math.round\<close> rounds a half up.\<close>

definition jsRound :: "real \<Rightarrow> int" where
  "jsRound x = \<lfloor>x + 1 / 2\<rfloor>"

text \<open>The decimal text of an integer, as a template literal prints it.\<close>

function showNat :: "nat \<Rightarrow> string" where
  "showNat n = (if n < 10 then [''0123456789'' ! n] else showNat (n div 10) @ [''0123456789'' ! (n mod 10)])"
  by pat_completeness auto
termination
  by (relation "measure id") auto

definition showInt :: "int \<Rightarrow> string" where
  "showInt k = (if k < 0 then ''-'' @ showNat (nat (- k)) else showNat (nat k))"

definition noteToFrequency :: "AudioConstants \<Rightarrow> string \<Rightarrow> real option" where
  "noteToFrequency c n = NOTE_FREQUENCIES c n"

text \<open>
  \<^verbatim>\<open>%\<close> is the remainder of the truncating division (\<open>smod\<close>); \<^verbatim>\<open>Math.floor\<close> of the
  quotient of two integers is \<open>div\<close>. A read of \<^verbatim>\<open>NOTE_NAMES\<close> outside the array prints as
  \<^verbatim>\<open>undefined\<close>. The frequency is positive (the logarithm of the source is NaN or
  \<^verbatim>\<open>-Infinity\<close> otherwise).
\<close>

definition frequencyToNote :: "AudioConstants \<Rightarrow> real \<Rightarrow> NoteData" where
  "frequencyToNote c freq =
     (let semitonesFromA4 = real_of_int SEMITONES_PER_OCTAVE * log 2 (freq / A4_FREQUENCY);
          nearestSemitone = jsRound semitonesFromA4;
          cnts = jsRound ((semitonesFromA4 - real_of_int nearestSemitone) * 100);
          a4Index = 9;
          a4Octave = 4;
          noteIndex = (a4Index + nearestSemitone) smod SEMITONES_PER_OCTAVE;
          normalizedNoteIndex = (if noteIndex \<ge> 0 then noteIndex else noteIndex + SEMITONES_PER_OCTAVE);
          octaveOffset = (a4Index + nearestSemitone) div SEMITONES_PER_OCTAVE;
          oct = a4Octave + octaveOffset;
          noteName = (if nat normalizedNoteIndex < length (NOTE_NAMES c)
                      then NOTE_NAMES c ! nat normalizedNoteIndex else ''undefined'')
      in \<lparr>noteLabel = noteName @ showInt oct, cents = cnts, frequency = freq, octave = oct\<rparr>)"

section \<open>The detector\<close>

record PitchData = NoteData +
  confidence :: real
  timestamp :: int

text \<open>
  The result is the returned value (\<open>Inl\<close> for a thrown error, \<open>Inr None\<close> for \<^verbatim>\<open>null\<close>) and
  the global smoothing buffer after the call. \<^verbatim>\<open>Date.now()\<close> is the argument \<open>now\<close>. For an
  empty window the source computes \<^verbatim>\<open>0/0\<close>, and \<^verbatim>\<open>NaN < 0.01\<close> is false.
\<close>

definition detectPitch ::
  "AudioConstants \<Rightarrow> real list \<Rightarrow> real \<Rightarrow> bool \<Rightarrow> int \<Rightarrow> PitchSmoothingBuffer
     \<Rightarrow> (js_error + PitchData option) \<times> PitchSmoothingBuffer" where
  "detectPitch c buf rate enableSmoothing now sb =
     (let sumSquares = foldl (\<lambda>s x. s + x * x) 0 buf;
          rms = sqrt (sumSquares / real (length buf))
      in if buf \<noteq> [] \<and> rms < 0.01 then (Inr None, if enableSmoothing then clear sb else sb)
         else case autocorrelate c (normalizeBuffer buf) rate of
           Inl e \<Rightarrow> (Inl e, sb)
         | Inr autocorrelation \<Rightarrow>
            (case findPeak c autocorrelation rate of
               None \<Rightarrow> (Inr None, if enableSmoothing then clear sb else sb)
             | Some (peakIndex, peakConfidence) \<Rightarrow>
                 if peakConfidence < MIN_CONFIDENCE_THRESHOLD c
                 then (Inr None, if enableSmoothing then clear sb else sb)
                 else
                   let interpolatedIndex = parabolicInterpolation autocorrelation peakIndex;
                       raw = rate / interpolatedIndex;
                       sb1 = (if enableSmoothing then add raw sb else sb);
                       freq = (if enableSmoothing then getSmoothed sb1 else raw)
                   in if freq < MIN_FREQUENCY c \<or> freq > MAX_FREQUENCY c
                      then (Inr None, if enableSmoothing then clear sb1 else sb1)
                      else (let noteData = frequencyToNote c freq
                            in (Inr (Some \<lparr>noteLabel = noteLabel noteData, cents = cents noteData,
                                           frequency = frequency noteData, octave = octave noteData,
                                           confidence = min peakConfidence 1, timestamp = now\<rparr>),
                                sb1))))"

datatype Sensitivity = Low | Medium | High

fun thresholds :: "Sensitivity \<Rightarrow> real" where
  "thresholds Low = 0.85"
| "thresholds Medium = 0.7"
| "thresholds High = 0.5"

definition detectPitchWithSensitivity ::
  "AudioConstants \<Rightarrow> real list \<Rightarrow> real \<Rightarrow> Sensitivity \<Rightarrow> int \<Rightarrow> PitchSmoothingBuffer
     \<Rightarrow> (js_error + PitchData option) \<times> PitchSmoothingBuffer" where
  "detectPitchWithSensitivity c buf rate sensitivity now sb =
     (case detectPitch c buf rate True now sb of
        (Inl e, sb') \<Rightarrow> (Inl e, sb')
      | (Inr None, sb') \<Rightarrow> (Inr None, sb')
      | (Inr (Some result), sb') \<Rightarrow>
          if confidence result < thresholds sensitivity then (Inr None, sb')
          else (Inr (Some result), sb'))"

section \<open>Spectral metrics (utils/audio/fftAnalysis.ts)\<close>

definition getVolume :: "8 word list \<Rightarrow> real" where
  "getVolume buf =
     (let (sumSquares, count) =
            foldl (\<lambda>(s, n) b. let normalized = real (unat b) / 255 in (s + normalized * normalized, n + 1))
              (0, 0 :: nat) buf
      in if count = 0 then - 100
         else let rms = sqrt (sumSquares / real count)
              in if rms = 0 then - 100
                 else let db = 20 * log 10 rms in max (- 100) (min 0 db))"

definition getSpectralCentroid :: "real list \<Rightarrow> real \<Rightarrow> int" where
  "getSpectralCentroid frequencies rate =
     (let binWidth = rate / (real (length frequencies) * 2);
          (weightedSum, magnitudeSum) =
            foldl (\<lambda>(w, m) i. let magnitude = frequencies ! i; freq = real i * binWidth
                              in (w + freq * magnitude, m + magnitude))
              (0, 0) [0..<length frequencies]
      in if magnitudeSum = 0 then 0 else jsRound (weightedSum / magnitudeSum))"

definition getClarity :: "real list \<Rightarrow> real" where
  "getClarity buf =
     (if length buf < 2 then 0
      else let zeroCrossings =
                 foldl (\<lambda>(z :: nat) i.
                          if (buf ! (i - 1) \<ge> 0 \<and> buf ! i < 0) \<or> (buf ! (i - 1) < 0 \<and> buf ! i \<ge> 0)
                          then z + 1 else z)
                   0 [1..<length buf];
               zcr = real zeroCrossings / real (length buf);
               maxExpectedZcr = 0.5
           in 1 - min (zcr / maxExpectedZcr) 1)"

section \<open>The analysis loop (utils/audio/audioMetrics.ts)\<close>

text \<open>
  \<^verbatim>\<open>calculateMetrics\<close> reads three arrays from the analyser node; they are arguments here,
  as are the two readings of \<^verbatim>\<open>Date.now()\<close>. An error thrown in the \<^verbatim>\<open>try\<close> block gives
  \<^verbatim>\<open>null\<close>. The field \<^verbatim>\<open>timestamp\<close> of the result is \<open>metricsTimestamp\<close>.
\<close>

record ExtendedAudioMetrics =
  pitch :: "PitchData option"
  volumeDb :: real
  clarity :: real
  spectralCentroid :: int
  hasVoice :: bool
  metricsTimestamp :: int

definition calculateMetrics ::
  "AudioConstants \<Rightarrow> real list \<Rightarrow> real list \<Rightarrow> 8 word list \<Rightarrow> real \<Rightarrow> Sensitivity \<Rightarrow> int \<Rightarrow> int
     \<Rightarrow> PitchSmoothingBuffer \<Rightarrow> ExtendedAudioMetrics option \<times> PitchSmoothingBuffer" where
  "calculateMetrics c timeDomainData frequencyData byteFrequencyData rate sensitivity now now' sb =
     (case detectPitch c timeDomainData rate True now sb of
        (Inl e, sb') \<Rightarrow> (None, sb')
      | (Inr pitchData, sb') \<Rightarrow>
          let filteredPitchData =
                (case pitchData of
                   None \<Rightarrow> None
                 | Some p \<Rightarrow> if confidence p \<ge> thresholds sensitivity then Some p else None);
              vol = getVolume byteFrequencyData;
              clar = getClarity timeDomainData;
              centroid = getSpectralCentroid frequencyData rate
          in (Some \<lparr>pitch = filteredPitchData, volumeDb = vol, clarity = clar,
                     spectralCentroid = centroid, hasVoice = (vol > - 50 \<and> clar > 0.2),
                     metricsTimestamp = now'\<rparr>,
              sb'))"

section \<open>Notions used to state the properties\<close>

text \<open>The root mean square of a window: the local \<^verbatim>\<open>rms\<close> of \<^verbatim>\<open>detectPitch\<close>.\<close>

definition windowRms :: "real list \<Rightarrow> real" where
  "windowRms buf = sqrt (foldl (\<lambda>s x. s + x * x) 0 buf / real (length buf))"

text \<open>
  The detection of a window that passes the silence gate and the confidence gate of
  \<^verbatim>\<open>detectPitch\<close>: the raw frequency (the sample rate over the interpolated lag) and the
  confidence of the peak. \<open>None\<close> when a gate rejects the window or the allocation fails.
\<close>

definition gatedDetection :: "AudioConstants \<Rightarrow> real list \<Rightarrow> real \<Rightarrow> (real \<times> real) option" where
  "gatedDetection c buf rate =
     (if buf \<noteq> [] \<and> windowRms buf < 0.01 then None
      else case autocorrelate c (normalizeBuffer buf) rate of
        Inl e \<Rightarrow> None
      | Inr autocorrelation \<Rightarrow>
          (case findPeak c autocorrelation rate of
             None \<Rightarrow> None
           | Some (peakIndex, peakConfidence) \<Rightarrow>
               if peakConfidence < MIN_CONFIDENCE_THRESHOLD c then None
               else Some (rate / parabolicInterpolation autocorrelation peakIndex, peakConfidence)))"

text \<open>A lag whose value is negative; a lag that is a strict local maximum.\<close>

definition negativeAt :: "real list \<Rightarrow> int \<Rightarrow> bool" where
  "negativeAt ac i = gt (Some 0) (elemAt ac i)"

definition localMaximum :: "real list \<Rightarrow> int \<Rightarrow> bool" where
  "localMaximum ac i = (gt (elemAt ac i) (elemAt ac (i - 1)) \<and> gt (elemAt ac i) (elemAt ac (i + 1)))"

text \<open>The root mean square of the magnitude bins, each divided by 255.\<close>

definition rmsBins :: "8 word list \<Rightarrow> real" where
  "rmsBins buf = sqrt (sum_list (map (\<lambda>b. (real (unat b) / 255)\<^sup>2) buf) / real (length buf))"

subsection \<open>Concrete inputs\<close>

text \<open>
  The table of note frequencies that the repository holds, in the component
  \<^verbatim>\<open>AdvancedAudioVisualizer\<close>: the notes C2 to C6 in equal temperament, to two decimals.
\<close>

definition noteTable :: "(string \<times> real) list" where
  "noteTable =
     [(''C2'', 6541 / 100), (''C#2'', 693 / 10), (''D2'', 3671 / 50), (''D#2'', 3889 / 50),
      (''E2'', 8241 / 100), (''F2'', 8731 / 100), (''F#2'', 185 / 2), (''G2'', 98),
      (''G#2'', 10383 / 100), (''A2'', 110), (''A#2'', 5827 / 50), (''B2'', 12347 / 100),
      (''C3'', 13081 / 100), (''C#3'', 13859 / 100), (''D3'', 14683 / 100), (''D#3'', 3889 / 25),
      (''E3'', 16481 / 100), (''F3'', 17461 / 100), (''F#3'', 185), (''G3'', 196),
      (''G#3'', 4153 / 20), (''A3'', 220), (''A#3'', 5827 / 25), (''B3'', 12347 / 50),
      (''C4'', 26163 / 100), (''C#4'', 13859 / 50), (''D4'', 14683 / 50), (''D#4'', 31113 / 100),
      (''E4'', 32963 / 100), (''F4'', 34923 / 100), (''F#4'', 36999 / 100), (''G4'', 392),
      (''G#4'', 4153 / 10), (''A4'', 440), (''A#4'', 11654 / 25), (''B4'', 12347 / 25),
      (''C5'', 2093 / 4), (''C#5'', 55437 / 100), (''D5'', 58733 / 100), (''D#5'', 2489 / 4),
      (''E5'', 2637 / 4), (''F5'', 34923 / 50), (''F#5'', 73999 / 100), (''G5'', 78399 / 100),
      (''G#5'', 83061 / 100), (''A5'', 880), (''A#5'', 93233 / 100), (''B5'', 98777 / 100),
      (''C6'', 2093 / 2)]"

text \<open>
  A configuration for the concrete evaluations: a vocal range of 80 to 1000 Hz, a minimum
  confidence of one half, a smoothing buffer of five entries, the twelve note names from
  C with sharps, and the table above.
\<close>

definition exampleConstants :: AudioConstants where
  "exampleConstants =
     \<lparr>MIN_FREQUENCY = 80, MAX_FREQUENCY = 1000, MIN_CONFIDENCE_THRESHOLD = 0.5,
      PITCH_SMOOTHING_BUFFER_SIZE = 5,
      NOTE_NAMES = [''C'', ''C#'', ''D'', ''D#'', ''E'', ''F'', ''F#'', ''G'', ''G#'', ''A'', ''A#'', ''B''],
      NOTE_FREQUENCIES = map_of noteTable\<rparr>"

text \<open>A square wave of period 20 samples, 64 samples long: 400 Hz at 8000 samples per second.\<close>

definition squareWindow :: "real list" where
  "squareWindow =
     [1, 1, 1, 1, 1, 1, 1, 1, 1, 1, - 1, - 1, - 1, - 1, - 1, - 1, - 1, - 1, - 1, - 1,
      1, 1, 1, 1, 1, 1, 1, 1, 1, 1, - 1, - 1, - 1, - 1, - 1, - 1, - 1, - 1, - 1, - 1,
      1, 1, 1, 1, 1, 1, 1, 1, 1, 1, - 1, - 1, - 1, - 1, - 1, - 1, - 1, - 1, - 1, - 1,
      1, 1, 1, 1]"

text \<open>Its autocorrelation over the lags 0 to 99.\<close>

definition squareAutocorrelation :: "real list" where
  "squareAutocorrelation =
     [64, 51, 38, 25, 12, 1, - 10, - 21, - 32, - 43, - 54, - 43, - 32, - 21, - 10, - 1,
      8, 17, 26, 35, 44, 35, 26, 17, 8, 1, - 6, - 13, - 20, - 27, - 34, - 27, - 20, - 13,
      - 6, - 1, 4, 9, 14, 19, 24, 19, 14, 9, 4, 1, - 2, - 5, - 8, - 11, - 14, - 11, - 8,
      - 5, - 2, - 1, 0, 1, 2, 3, 4, 3, 2, 1,
      0, 0, 0, 0, 0, 0, 0, 0, 0, 0, 0, 0, 0, 0, 0, 0, 0, 0,
      0, 0, 0, 0, 0, 0, 0, 0, 0, 0, 0, 0, 0, 0, 0, 0, 0, 0]"

text \<open>
  An autocorrelation with four strict local maxima after its first negative lag: at lag 2
  (value 2), at lags 4 and 6 (value 5 both) and at lag 8 (value 3).
\<close>

definition peaksExample :: "real list" where
  "peaksExample = [10, - 1, 2, 1, 5, 1, 5, 0, 3, 0]"

subsection \<open>Notions for the round trip between frequencies and notes\<close>

text \<open>
  The semitone that \<^verbatim>\<open>frequencyToNote\<close> rounds a frequency to (its local
  \<^verbatim>\<open>nearestSemitone\<close>), and the note name it builds for a semitone.
\<close>

definition nearestSemitoneOf :: "real \<Rightarrow> int" where
  "nearestSemitoneOf freq = jsRound (real_of_int SEMITONES_PER_OCTAVE * log 2 (freq / A4_FREQUENCY))"

definition semitoneLabel :: "AudioConstants \<Rightarrow> int \<Rightarrow> string" where
  "semitoneLabel c n =
     (let noteIndex = (9 + n) smod SEMITONES_PER_OCTAVE;
          normalizedNoteIndex = (if noteIndex \<ge> 0 then noteIndex else noteIndex + SEMITONES_PER_OCTAVE);
          oct = 4 + (9 + n) div SEMITONES_PER_OCTAVE;
          noteName = (if nat normalizedNoteIndex < length (NOTE_NAMES c)
                      then NOTE_NAMES c ! nat normalizedNoteIndex else ''undefined'')
      in noteName @ showInt oct)"

text \<open>
  The table \<^verbatim>\<open>NOTE_FREQUENCIES\<close> is not part of the sources at hand. The round trip is
  stated for the tables that hold, for every note \<^verbatim>\<open>frequencyToNote\<close> names in the
  configured range, the frequency of that note in equal temperament to within 0.01 Hz
  (the spec: conversion in equal-temperament tuning from a 440 Hz reference).
\<close>

definition tableEntryOk :: "AudioConstants \<Rightarrow> int \<Rightarrow> bool" where
  "tableEntryOk c n =
     (case NOTE_FREQUENCIES c (semitoneLabel c n) of
        None \<Rightarrow> False
      | Some t \<Rightarrow> \<bar>t - A4_FREQUENCY * 2 powr (real_of_int n / 12)\<bar> \<le> 0.01)"

definition equalTemperedTable :: "AudioConstants \<Rightarrow> bool" where
  "equalTemperedTable c =
     (\<forall>n. nearestSemitoneOf (MIN_FREQUENCY c) \<le> n \<and> n \<le> nearestSemitoneOf (MAX_FREQUENCY c)
          \<longrightarrow> tableEntryOk c n)"


section \<open>Properties of the recording state machine\<close>

lemma reducer_unguarded_frame:
  "userTriggered a \<Longrightarrow> \<not> guard a s \<Longrightarrow>
     status (reducer s a) = status s \<and> currentSession (reducer s a) = currentSession s"
  by (cases a) (auto simp: reducer_defs guard_defs Let_def)

text \<open>
  Claim C1. For each of the ten user-triggered actions and each state that fails the
  action's guard, the reducer leaves \<open>status\<close> and \<open>currentSession\<close> as they were, and so
  does not move to \<open>Error\<close>. In particular \<open>pauseRecording\<close> in \<open>Idle\<close> stays \<open>Idle\<close>
  with the session untouched, and \<open>startRecording\<close> in \<open>Recording\<close> keeps the session it
  found (no second session).
\<close>

theorem guard_failure_is_noop:
  "(userTriggered a \<and> \<not> guard a s \<longrightarrow>
      status (reducer s a) = status s \<and>
      currentSession (reducer s a) = currentSession s \<and>
      (status s \<noteq> Error \<longrightarrow> status (reducer s a) \<noteq> Error)) \<and>
   (status s = Idle \<longrightarrow>
      status (pauseRecording s) = Idle \<and> currentSession (pauseRecording s) = currentSession s) \<and>
   (status s = Recording \<longrightarrow>
      status (startRecording sid now s) = Recording \<and>
      currentSession (startRecording sid now s) = currentSession s)"
proof (intro conjI impI)
  assume h: "userTriggered a \<and> \<not> guard a s"
  then show "status (reducer s a) = status s" using reducer_unguarded_frame by blast
  from h show "currentSession (reducer s a) = currentSession s"
    using reducer_unguarded_frame by blast
  assume "status s \<noteq> Error"
  with h show "status (reducer s a) \<noteq> Error" using reducer_unguarded_frame by metis
next
  assume "status s = Idle"
  then show "status (pauseRecording s) = Idle"
    by (simp add: pauseRecording_def canPauseRecording_def)
next
  assume "status s = Idle"
  then show "currentSession (pauseRecording s) = currentSession s"
    by (simp add: pauseRecording_def canPauseRecording_def)
next
  assume "status s = Recording"
  then show "status (startRecording sid now s) = Recording"
    by (simp add: startRecording_def canStartRecording_def)
next
  assume "status s = Recording"
  then show "currentSession (startRecording sid now s) = currentSession s"
    by (simp add: startRecording_def canStartRecording_def)
qed

theorem guard_failure_is_noop_witness:
  "userTriggered (PauseRecording :: (unit, unit, unit) Action) \<and>
   \<not> guard PauseRecording (initialState :: (unit, unit, unit) AudioSliceState) \<and>
   status (reducer (initialState :: (unit, unit, unit) AudioSliceState) PauseRecording) = Idle \<and>
   currentSession (reducer (initialState :: (unit, unit, unit) AudioSliceState) PauseRecording) = None \<and>
   status (run [StartRecording ''s1'' 0 :: (unit, unit, unit) Action]) = Recording \<and>
   currentSession (startRecording ''s2'' 7 (run [StartRecording ''s1'' 0 :: (unit, unit, unit) Action]))
     = Some \<lparr>sessionId = ''s1'', startTime = 0, duration = 0, audioBlob = None, analysis = None\<rparr>"
  using guard_failure_is_noop [of "PauseRecording :: (unit, unit, unit) Action" initialState "''s2''" 7]
    guard_failure_is_noop [of "PauseRecording :: (unit, unit, unit) Action"
      "run [StartRecording ''s1'' 0 :: (unit, unit, unit) Action]" "''s2''" 7]
  by (simp add: run_def initialState_def pauseRecording_def startRecording_def guard_defs)

lemma reducer_live_session:
  "(liveStatus (status s) \<longrightarrow> currentSession s \<noteq> None) \<Longrightarrow>
   (liveStatus (status (reducer s a)) \<longrightarrow> currentSession (reducer s a) \<noteq> None)"
  by (cases a)
    (auto simp: reducer_defs guard_defs liveStatus_def Let_def split: option.splits list.splits)

lemma foldl_live_session:
  "(liveStatus (status s) \<longrightarrow> currentSession s \<noteq> None) \<Longrightarrow>
   (liveStatus (status (foldl reducer s acts)) \<longrightarrow> currentSession (foldl reducer s acts) \<noteq> None)"
proof (induction acts arbitrary: s)
  case Nil
  then show ?case by simp
next
  case (Cons a acts)
  have "liveStatus (status (reducer s a)) \<longrightarrow> currentSession (reducer s a) \<noteq> None"
    using Cons.prems by (rule reducer_live_session)
  then show ?case using Cons.IH [of "reducer s a"] by simp
qed

text \<open>
  Claim C2, as stated, fails: after \<open>startRecording\<close>, \<open>stopRecording\<close> and \<open>setAnalysis\<close>
  the status is \<open>Idle\<close> and the session, now carrying its analysis, is still there.
\<close>

theorem session_iff_live_counterexample:
  "\<not> (currentSession (run [StartRecording ''s1'' 0, StopRecording 5000 None, SetAnalysis None
          :: (unit, unit, unit) Action]) \<noteq> None
       \<longleftrightarrow> liveStatus (status (run [StartRecording ''s1'' 0, StopRecording 5000 None, SetAnalysis None
          :: (unit, unit, unit) Action])))"
  by (simp add: run_def initialState_def startRecording_def stopRecording_def setAnalysis_def
      guard_defs liveStatus_def)

text \<open>
  Claim C2, amended: in every state reached from the initial state by any sequence of
  actions, if the status is \<open>Recording\<close>, \<open>Paused\<close> or \<open>Analyzing\<close> then a session exists.
\<close>

theorem live_status_has_session:
  "liveStatus (status (run acts)) \<longrightarrow> currentSession (run acts) \<noteq> None"
  unfolding run_def by (rule foldl_live_session) (simp add: initialState_def liveStatus_def)

theorem live_status_has_session_witness:
  "liveStatus (status (run [StartRecording ''s1'' 0 :: (unit, unit, unit) Action])) \<and>
   currentSession (run [StartRecording ''s1'' 0 :: (unit, unit, unit) Action]) \<noteq> None"
  using live_status_has_session [of "[StartRecording ''s1'' 0 :: (unit, unit, unit) Action]"]
  by (simp add: run_def initialState_def startRecording_def guard_defs liveStatus_def)

text \<open>
  Claim C8. When \<open>analyzeRecording.rejected\<close> arrives in status \<open>Analyzing\<close>, the status
  becomes \<open>Error\<close>, the error field holds the failure message (the payload, or the
  fallback text when the payload is missing or empty) and the session is unchanged; after
  a \<open>stopRecording\<close> that passed its guard, that session is the one stamped with the
  duration and the blob of the stop.
\<close>

theorem analysis_failure_keeps_session:
  "(status s = Analyzing \<longrightarrow>
      status (reducer s (AnalyzeRecordingRejected m)) = Error \<and>
      error (reducer s (AnalyzeRecordingRejected m)) = Some (orElse m ''Failed to analyze recording'') \<and>
      currentSession (reducer s (AnalyzeRecordingRejected m)) = currentSession s) \<and>
   (guard (StopRecording d b) s \<and> currentSession s = Some sess \<longrightarrow>
      status (reducer (reducer s (StopRecording d b)) (AnalyzeRecordingRejected m)) = Error \<and>
      currentSession (reducer (reducer s (StopRecording d b)) (AnalyzeRecordingRejected m))
        = Some (sess\<lparr>duration := d, audioBlob := b\<rparr>)) \<and>
   (msg \<noteq> [] \<longrightarrow> orElse (Some msg) ''Failed to analyze recording'' = msg)"
  by (auto simp: analyzeRecording_rejected_def stopRecording_def orElse_def)

theorem analysis_failure_keeps_session_witness:
  "status (run [StartRecording ''s1'' 0, StopRecording 5000 (Some ()) :: (unit, unit, unit) Action]) = Analyzing \<and>
   status (run [StartRecording ''s1'' 0, StopRecording 5000 (Some ()), AnalyzeRecordingRejected (Some ''boom'')
      :: (unit, unit, unit) Action]) = Error \<and>
   error (run [StartRecording ''s1'' 0, StopRecording 5000 (Some ()), AnalyzeRecordingRejected (Some ''boom'')
      :: (unit, unit, unit) Action]) = Some ''boom'' \<and>
   currentSession (run [StartRecording ''s1'' 0, StopRecording 5000 (Some ()), AnalyzeRecordingRejected (Some ''boom'')
      :: (unit, unit, unit) Action])
     = Some \<lparr>sessionId = ''s1'', startTime = 0, duration = 5000, audioBlob = Some (), analysis = None\<rparr>"
  using analysis_failure_keeps_session
    [of "run [StartRecording ''s1'' 0, StopRecording 5000 (Some ()) :: (unit, unit, unit) Action]"
        "Some ''boom''" 5000 "Some ()" _ "''boom''"]
  by (simp add: run_def initialState_def startRecording_def stopRecording_def
      analyzeRecording_rejected_def orElse_def guard_defs)

section \<open>Properties of the pitch detector\<close>

subsection \<open>The two loops of \<^verbatim>\<open>findPeak\<close>\<close>

declare firstNegative.simps [simp del] peakLoop.simps [simp del]

lemma firstNegative_None:
  "firstNegative ac i m = None \<longleftrightarrow> (\<forall>j. i \<le> j \<and> j < m \<longrightarrow> \<not> negativeAt ac j)"
proof (induction ac i m rule: firstNegative.induct)
  case (1 ac i m)
  show ?case
  proof (cases "i < m")
    case False
    then show ?thesis by (auto simp: firstNegative.simps [of ac i m])
  next
    case True
    show ?thesis
    proof (cases "gt (Some 0) (elemAt ac i)")
      case neg: True
      then show ?thesis using True
        by (auto simp: firstNegative.simps [of ac i m] negativeAt_def)
    next
      case nn: False
      have "firstNegative ac i m = firstNegative ac (i + 1) m"
        using True nn by (simp add: firstNegative.simps [of ac i m])
      moreover have "(\<forall>j. i \<le> j \<and> j < m \<longrightarrow> \<not> negativeAt ac j) \<longleftrightarrow>
                     (\<forall>j. i + 1 \<le> j \<and> j < m \<longrightarrow> \<not> negativeAt ac j)"
      proof -
        have "\<And>j. i \<le> j \<longleftrightarrow> j = i \<or> i + 1 \<le> j" by auto
        then show ?thesis using nn by (auto simp: negativeAt_def)
      qed
      ultimately show ?thesis using "1.IH" [OF True nn] by simp
    qed
  qed
qed

lemma firstNegative_Some:
  "firstNegative ac i m = Some k \<Longrightarrow>
     i \<le> k \<and> k < m \<and> negativeAt ac k \<and> (\<forall>j. i \<le> j \<and> j < k \<longrightarrow> \<not> negativeAt ac j)"
proof (induction ac i m rule: firstNegative.induct)
  case (1 ac i m)
  show ?case
  proof (cases "i < m")
    case False
    then show ?thesis using "1.prems" by (simp add: firstNegative.simps [of ac i m])
  next
    case True
    show ?thesis
    proof (cases "gt (Some 0) (elemAt ac i)")
      case neg: True
      then have "k = i" using True "1.prems" by (simp add: firstNegative.simps [of ac i m])
      then show ?thesis using True neg by (auto simp: negativeAt_def)
    next
      case nn: False
      have "firstNegative ac (i + 1) m = Some k"
        using True nn "1.prems" by (simp add: firstNegative.simps [of ac i m])
      then have ih: "i + 1 \<le> k \<and> k < m \<and> negativeAt ac k \<and>
                     (\<forall>j. i + 1 \<le> j \<and> j < k \<longrightarrow> \<not> negativeAt ac j)"
        using "1.IH" [OF True nn] by simp
      have "\<And>j. i \<le> j \<longleftrightarrow> j = i \<or> i + 1 \<le> j" by auto
      then show ?thesis using ih nn by (auto simp: negativeAt_def)
    qed
  qed
qed

text \<open>The invariant of the second loop.\<close>

lemma peakLoop_None:
  "peakLoop ac i b peak = None \<longleftrightarrow> peak = None \<and> (\<forall>j. i \<le> j \<and> j < b \<longrightarrow> \<not> localMaximum ac j)"
proof (induction ac i b peak rule: peakLoop.induct)
  case (1 ac i b peak)
  have split: "\<And>P. (\<forall>j. i \<le> j \<and> j < b \<longrightarrow> P j) \<longleftrightarrow> (i < b \<longrightarrow> P i) \<and> (\<forall>j. i + 1 \<le> j \<and> j < b \<longrightarrow> P j)"
  proof -
    fix P :: "int \<Rightarrow> bool"
    have "\<And>j. i \<le> j \<longleftrightarrow> j = i \<or> i + 1 \<le> j" by auto
    then show "(\<forall>j. i \<le> j \<and> j < b \<longrightarrow> P j) \<longleftrightarrow> (i < b \<longrightarrow> P i) \<and> (\<forall>j. i + 1 \<le> j \<and> j < b \<longrightarrow> P j)"
      by auto
  qed
  show ?case
  proof (cases "i < b")
    case False
    then show ?thesis by (auto simp: peakLoop.simps [of ac i b peak])
  next
    case True
    let ?upd = "gt (elemAt ac i) (elemAt ac (i - 1)) \<and> gt (elemAt ac i) (elemAt ac (i + 1)) \<and>
               (case peak of None \<Rightarrow> True | Some (peakIndex, peakValue) \<Rightarrow> gt (elemAt ac i) (Some peakValue))"
    show ?thesis
    proof (cases ?upd)
      case u: True
      have "peakLoop ac i b peak = peakLoop ac (i + 1) b (Some (i, ac ! nat i))"
        unfolding peakLoop.simps [of ac i b peak] if_P [OF True] if_P [OF u] ..
      moreover have "localMaximum ac i" using u by (simp add: localMaximum_def)
      ultimately show ?thesis using "1.IH"(1) [OF True u] True by (auto simp: split)
    next
      case nu: False
      have e: "peakLoop ac i b peak = peakLoop ac (i + 1) b peak"
        unfolding peakLoop.simps [of ac i b peak] if_P [OF True] if_not_P [OF nu] ..
      have "peak = None \<Longrightarrow> \<not> localMaximum ac i" using nu by (auto simp: localMaximum_def)
      then show ?thesis using "1.IH"(2) [OF True nu] e True by (auto simp: split)
    qed
  qed
qed

lemma localMaximum_elem: "localMaximum ac j \<Longrightarrow> elemAt ac j = Some (ac ! nat j) \<and> 1 \<le> j \<and> j + 1 < int (length ac)"
  by (auto simp: localMaximum_def elemAt_def split: if_splits)

lemma peakLoop_Some:
  "peakLoop ac i b peak = Some (p, v) \<Longrightarrow>
   (\<forall>p0 v0. peak = Some (p0, v0) \<longrightarrow> p0 < i) \<Longrightarrow>
     (peak = Some (p, v) \<or>
        (i \<le> p \<and> p < b \<and> localMaximum ac p \<and> v = ac ! nat p \<and>
         (\<forall>p0 v0. peak = Some (p0, v0) \<longrightarrow> v0 < v))) \<and>
     (\<forall>j. i \<le> j \<and> j < b \<and> localMaximum ac j \<longrightarrow>
        ac ! nat j \<le> v \<and> (j < p \<longrightarrow> ac ! nat j < v)) \<and>
     (\<forall>p0 v0. peak = Some (p0, v0) \<longrightarrow> v0 \<le> v)"
proof (induction ac i b peak rule: peakLoop.induct)
  case (1 ac i b peak)
  have split: "\<And>j. i \<le> j \<longleftrightarrow> j = i \<or> i + 1 \<le> j" by auto
  show ?case
  proof (cases "i < b")
    case False
    then have "peak = Some (p, v)" using "1.prems" by (simp add: peakLoop.simps [of ac i b peak])
    then show ?thesis using False by auto
  next
    case True
    let ?upd = "gt (elemAt ac i) (elemAt ac (i - 1)) \<and> gt (elemAt ac i) (elemAt ac (i + 1)) \<and>
               (case peak of None \<Rightarrow> True | Some (peakIndex, peakValue) \<Rightarrow> gt (elemAt ac i) (Some peakValue))"
    show ?thesis
    proof (cases ?upd)
      case u: True
      then have lm: "localMaximum ac i" by (simp add: localMaximum_def)
      then have el: "elemAt ac i = Some (ac ! nat i)" using localMaximum_elem by blast
      have e: "peakLoop ac (i + 1) b (Some (i, ac ! nat i)) = Some (p, v)"
        using "1.prems"(1) unfolding peakLoop.simps [of ac i b peak] if_P [OF True] if_P [OF u] .
      have pre: "\<forall>p0 v0. Some (i, ac ! nat i) = Some (p0, v0) \<longrightarrow> p0 < i + 1" by simp
      note ih = "1.IH"(1) [OF True u e pre]
      have old: "\<forall>p0 v0. peak = Some (p0, v0) \<longrightarrow> v0 < ac ! nat i"
        using u el by (auto split: option.splits)
      from ih have A: "(p = i \<and> v = ac ! nat i) \<or>
          (i + 1 \<le> p \<and> p < b \<and> localMaximum ac p \<and> v = ac ! nat p \<and> ac ! nat i < v)" by auto
      from ih have B: "\<forall>j. i + 1 \<le> j \<and> j < b \<and> localMaximum ac j \<longrightarrow>
          ac ! nat j \<le> v \<and> (j < p \<longrightarrow> ac ! nat j < v)" by blast
      from ih have C: "ac ! nat i \<le> v" by auto
      have c1: "peak = Some (p, v) \<or>
        (i \<le> p \<and> p < b \<and> localMaximum ac p \<and> v = ac ! nat p \<and>
         (\<forall>p0 v0. peak = Some (p0, v0) \<longrightarrow> v0 < v))"
        using A lm True old C by force
      have c2: "\<forall>j. i \<le> j \<and> j < b \<and> localMaximum ac j \<longrightarrow>
        ac ! nat j \<le> v \<and> (j < p \<longrightarrow> ac ! nat j < v)"
      proof (intro allI impI)
        fix j assume j: "i \<le> j \<and> j < b \<and> localMaximum ac j"
        show "ac ! nat j \<le> v \<and> (j < p \<longrightarrow> ac ! nat j < v)"
        proof (cases "j = i")
          case True
          then show ?thesis using A C by auto
        next
          case False
          then have "i + 1 \<le> j" using j by simp
          then show ?thesis using B j by blast
        qed
      qed
      have c3: "\<forall>p0 v0. peak = Some (p0, v0) \<longrightarrow> v0 \<le> v" using old C by force
      show ?thesis using c1 c2 c3 by blast
    next
      case nu: False
      have e: "peakLoop ac (i + 1) b peak = Some (p, v)"
        using "1.prems"(1) unfolding peakLoop.simps [of ac i b peak] if_P [OF True] if_not_P [OF nu] .
      have pre: "\<forall>p0 v0. peak = Some (p0, v0) \<longrightarrow> p0 < i + 1" using "1.prems"(2) by force
      note ih = "1.IH"(2) [OF True nu e pre]
      have notbetter: "localMaximum ac i \<Longrightarrow> \<exists>p0 v0. peak = Some (p0, v0) \<and> ac ! nat i \<le> v0"
      proof -
        assume lm: "localMaximum ac i"
        then have el: "elemAt ac i = Some (ac ! nat i)" using localMaximum_elem by blast
        from lm nu have "\<not> (case peak of None \<Rightarrow> True | Some (peakIndex, peakValue) \<Rightarrow> gt (elemAt ac i) (Some peakValue))"
          by (simp add: localMaximum_def)
        then show ?thesis using el by (auto split: option.splits)
      qed
      have c1: "peak = Some (p, v) \<or>
        (i \<le> p \<and> p < b \<and> localMaximum ac p \<and> v = ac ! nat p \<and>
         (\<forall>p0 v0. peak = Some (p0, v0) \<longrightarrow> v0 < v))"
        using ih by auto
      have c3: "\<forall>p0 v0. peak = Some (p0, v0) \<longrightarrow> v0 \<le> v" using ih by blast
      have c2: "\<forall>j. i \<le> j \<and> j < b \<and> localMaximum ac j \<longrightarrow>
        ac ! nat j \<le> v \<and> (j < p \<longrightarrow> ac ! nat j < v)"
      proof (intro allI impI)
        fix j assume j: "i \<le> j \<and> j < b \<and> localMaximum ac j"
        show "ac ! nat j \<le> v \<and> (j < p \<longrightarrow> ac ! nat j < v)"
        proof (cases "j = i")
          case ji: True
          then obtain p0 v0 where pk: "peak = Some (p0, v0)" "ac ! nat i \<le> v0"
            using notbetter j by blast
          have le: "ac ! nat j \<le> v" using pk c3 ji by force
          have "j < p \<Longrightarrow> ac ! nat j < v"
          proof -
            assume jp: "j < p"
            have "p0 < i" using pk "1.prems"(2) by blast
            then have "peak \<noteq> Some (p, v)" using pk jp ji by auto
            then have "\<forall>p0 v0. peak = Some (p0, v0) \<longrightarrow> v0 < v" using c1 by blast
            then show "ac ! nat j < v" using pk ji by force
          qed
          then show ?thesis using le by blast
        next
          case False
          then have "i + 1 \<le> j" using j by simp
          then show ?thesis using ih j by blast
        qed
      qed
      show ?thesis using c1 c2 c3 by blast
    qed
  qed
qed


lemma zeroCrossing_spec:
  "((\<exists>i. \<lfloor>rate / MAX_FREQUENCY c\<rfloor> \<le> i \<and> i < \<lfloor>rate / MIN_FREQUENCY c\<rfloor> \<and> negativeAt ac i) \<longrightarrow>
      \<lfloor>rate / MAX_FREQUENCY c\<rfloor> \<le> zeroCrossing c ac rate \<and>
      zeroCrossing c ac rate < \<lfloor>rate / MIN_FREQUENCY c\<rfloor> \<and>
      negativeAt ac (zeroCrossing c ac rate) \<and>
      (\<forall>j. \<lfloor>rate / MAX_FREQUENCY c\<rfloor> \<le> j \<and> j < zeroCrossing c ac rate \<longrightarrow> \<not> negativeAt ac j)) \<and>
   ((\<forall>i. \<lfloor>rate / MAX_FREQUENCY c\<rfloor> \<le> i \<and> i < \<lfloor>rate / MIN_FREQUENCY c\<rfloor> \<longrightarrow> \<not> negativeAt ac i) \<longrightarrow>
      zeroCrossing c ac rate = \<lfloor>rate / MAX_FREQUENCY c\<rfloor>)"
proof (cases "firstNegative ac \<lfloor>rate / MAX_FREQUENCY c\<rfloor> \<lfloor>rate / MIN_FREQUENCY c\<rfloor>")
  case None
  then have z: "zeroCrossing c ac rate = \<lfloor>rate / MAX_FREQUENCY c\<rfloor>"
    by (simp add: zeroCrossing_def)
  from None have "\<forall>j. \<lfloor>rate / MAX_FREQUENCY c\<rfloor> \<le> j \<and> j < \<lfloor>rate / MIN_FREQUENCY c\<rfloor> \<longrightarrow> \<not> negativeAt ac j"
    by (simp add: firstNegative_None)
  then show ?thesis using z by blast
next
  case (Some k)
  then have z: "zeroCrossing c ac rate = k" by (simp add: zeroCrossing_def)
  from Some have k: "\<lfloor>rate / MAX_FREQUENCY c\<rfloor> \<le> k \<and> k < \<lfloor>rate / MIN_FREQUENCY c\<rfloor> \<and> negativeAt ac k \<and>
      (\<forall>j. \<lfloor>rate / MAX_FREQUENCY c\<rfloor> \<le> j \<and> j < k \<longrightarrow> \<not> negativeAt ac j)"
    by (rule firstNegative_Some)
  then show ?thesis unfolding z by blast
qed

lemma findPeak_None:
  "findPeak c ac rate = None \<longleftrightarrow>
     (\<forall>j. zeroCrossing c ac rate \<le> j \<and> j < \<lfloor>rate / MIN_FREQUENCY c\<rfloor> - 1 \<longrightarrow> \<not> localMaximum ac j)"
proof -
  have "findPeak c ac rate = None \<longleftrightarrow>
        peakLoop ac (zeroCrossing c ac rate) (\<lfloor>rate / MIN_FREQUENCY c\<rfloor> - 1) None = None"
    by (simp add: findPeak_def Let_def split: option.splits prod.splits)
  then show ?thesis by (simp add: peakLoop_None)
qed

lemma findPeak_Some:
  assumes "findPeak c ac rate = Some (p, conf)"
  shows "zeroCrossing c ac rate \<le> p \<and> p < \<lfloor>rate / MIN_FREQUENCY c\<rfloor> - 1 \<and> localMaximum ac p \<and>
     (\<forall>j. zeroCrossing c ac rate \<le> j \<and> j < \<lfloor>rate / MIN_FREQUENCY c\<rfloor> - 1 \<and> localMaximum ac j \<longrightarrow>
        ac ! nat j \<le> ac ! nat p \<and> (j < p \<longrightarrow> ac ! nat j < ac ! nat p)) \<and>
     conf = (if 0 < ac ! 0 then ac ! nat p / ac ! 0 else 0)"
proof -
  obtain v where loop: "peakLoop ac (zeroCrossing c ac rate) (\<lfloor>rate / MIN_FREQUENCY c\<rfloor> - 1) None = Some (p, v)"
    and cf: "conf = (if gt (elemAt ac 0) (Some 0)
                     then v / (case elemAt ac 0 of Some m \<Rightarrow> m | None \<Rightarrow> 1) else 0)"
    using assms by (auto simp: findPeak_def Let_def split: option.splits prod.splits)
  have pre: "\<forall>p0 v0. (None :: (int \<times> real) option) = Some (p0, v0) \<longrightarrow> p0 < zeroCrossing c ac rate"
    by simp
  note inv = peakLoop_Some [OF loop pre]
  from inv have a: "zeroCrossing c ac rate \<le> p \<and> p < \<lfloor>rate / MIN_FREQUENCY c\<rfloor> - 1 \<and>
      localMaximum ac p \<and> v = ac ! nat p" by simp
  from inv have b: "\<forall>j. zeroCrossing c ac rate \<le> j \<and> j < \<lfloor>rate / MIN_FREQUENCY c\<rfloor> - 1 \<and> localMaximum ac j \<longrightarrow>
        ac ! nat j \<le> v \<and> (j < p \<longrightarrow> ac ! nat j < v)" by blast
  have "1 \<le> p \<and> p + 1 < int (length ac)" using a localMaximum_elem by blast
  then have "elemAt ac 0 = Some (ac ! 0)" by (auto simp: elemAt_def)
  then have "conf = (if 0 < ac ! 0 then ac ! nat p / ac ! 0 else 0)" using cf a by simp
  then show ?thesis using a b by blast
qed


text \<open>
  Claim C4. \<^verbatim>\<open>findPeak\<close> scans from \<open>\<lfloor>sampleRate / MAX_FREQUENCY\<rfloor>\<close>; its zero
  crossing is the first lag from there whose value is negative (the start of the scan
  when no lag is). From the zero crossing up to \<open>\<lfloor>sampleRate / MIN_FREQUENCY\<rfloor> - 2\<close> it
  returns \<^verbatim>\<open>null\<close> exactly when no lag is a strict local maximum; otherwise it returns a
  strict local maximum that no later local maximum exceeds and that is strictly above
  every earlier one, hence the first local maximum not exceeded later, and the earliest
  among local maxima of equal value. The confidence is the peak value over the value at
  lag 0.
\<close>

theorem findPeak_selects_dominant_peak:
  "((\<exists>i. \<lfloor>rate / MAX_FREQUENCY c\<rfloor> \<le> i \<and> i < \<lfloor>rate / MIN_FREQUENCY c\<rfloor> \<and> negativeAt ac i) \<longrightarrow>
      \<lfloor>rate / MAX_FREQUENCY c\<rfloor> \<le> zeroCrossing c ac rate \<and>
      zeroCrossing c ac rate < \<lfloor>rate / MIN_FREQUENCY c\<rfloor> \<and>
      negativeAt ac (zeroCrossing c ac rate) \<and>
      (\<forall>j. \<lfloor>rate / MAX_FREQUENCY c\<rfloor> \<le> j \<and> j < zeroCrossing c ac rate \<longrightarrow> \<not> negativeAt ac j)) \<and>
   ((\<forall>i. \<lfloor>rate / MAX_FREQUENCY c\<rfloor> \<le> i \<and> i < \<lfloor>rate / MIN_FREQUENCY c\<rfloor> \<longrightarrow> \<not> negativeAt ac i) \<longrightarrow>
      zeroCrossing c ac rate = \<lfloor>rate / MAX_FREQUENCY c\<rfloor>) \<and>
   (findPeak c ac rate = None \<longleftrightarrow>
      (\<forall>j. zeroCrossing c ac rate \<le> j \<and> j < \<lfloor>rate / MIN_FREQUENCY c\<rfloor> - 1 \<longrightarrow> \<not> localMaximum ac j)) \<and>
   (\<forall>p conf. findPeak c ac rate = Some (p, conf) \<longrightarrow>
      zeroCrossing c ac rate \<le> p \<and> p < \<lfloor>rate / MIN_FREQUENCY c\<rfloor> - 1 \<and> localMaximum ac p \<and>
      (\<forall>j. zeroCrossing c ac rate \<le> j \<and> j < \<lfloor>rate / MIN_FREQUENCY c\<rfloor> - 1 \<and> localMaximum ac j \<longrightarrow>
         ac ! nat j \<le> ac ! nat p \<and> (j < p \<longrightarrow> ac ! nat j < ac ! nat p)) \<and>
      conf = (if 0 < ac ! 0 then ac ! nat p / ac ! 0 else 0))"
proof -
  note z = zeroCrossing_spec [of rate c ac]
  note n = findPeak_None [of c ac rate]
  have s: "\<forall>p conf. findPeak c ac rate = Some (p, conf) \<longrightarrow>
      zeroCrossing c ac rate \<le> p \<and> p < \<lfloor>rate / MIN_FREQUENCY c\<rfloor> - 1 \<and> localMaximum ac p \<and>
      (\<forall>j. zeroCrossing c ac rate \<le> j \<and> j < \<lfloor>rate / MIN_FREQUENCY c\<rfloor> - 1 \<and> localMaximum ac j \<longrightarrow>
         ac ! nat j \<le> ac ! nat p \<and> (j < p \<longrightarrow> ac ! nat j < ac ! nat p)) \<and>
      conf = (if 0 < ac ! 0 then ac ! nat p / ac ! 0 else 0)"
    by (intro allI impI) (rule findPeak_Some)
  show ?thesis
    by (rule conjI [OF conjunct1 [OF z] conjI [OF conjunct2 [OF z] conjI [OF n s]]])
qed


lemma peaksExample_zeroCrossing: "zeroCrossing exampleConstants peaksExample 800 = 1"
  by code_simp

lemma peaksExample_findPeak: "findPeak exampleConstants peaksExample 800 = Some (4, 1 / 2)"
  by code_simp

lemma peaksExample_facts:
  "negativeAt peaksExample 1" "localMaximum peaksExample 2" "localMaximum peaksExample 4"
  "localMaximum peaksExample 6" "localMaximum peaksExample 8"
  "\<lfloor>800 / MAX_FREQUENCY exampleConstants\<rfloor> = 0" "\<lfloor>800 / MIN_FREQUENCY exampleConstants\<rfloor> = 10"
  by (simp_all add: negativeAt_def localMaximum_def elemAt_def peaksExample_def exampleConstants_def)

lemma peaksExample_values:
  "peaksExample ! 0 = 10" "peaksExample ! 2 = 2" "peaksExample ! 4 = 5" "peaksExample ! 6 = 5"
  "peaksExample ! 8 = 3"
  by (simp_all add: peaksExample_def)

theorem findPeak_selects_dominant_peak_witness:
  "zeroCrossing exampleConstants peaksExample 800 = 1 \<and> negativeAt peaksExample 1 \<and>
   findPeak exampleConstants peaksExample 800 = Some (4, 1 / 2) \<and>
   localMaximum peaksExample 2 \<and> peaksExample ! nat 2 < peaksExample ! nat 4 \<and>
   localMaximum peaksExample 6 \<and> peaksExample ! nat 6 \<le> peaksExample ! nat 4 \<and>
   localMaximum peaksExample 8 \<and> peaksExample ! nat 8 \<le> peaksExample ! nat 4 \<and>
   peaksExample ! nat 4 < peaksExample ! 0"
  using findPeak_selects_dominant_peak [of 800 exampleConstants peaksExample]
  by (simp add: peaksExample_zeroCrossing peaksExample_findPeak peaksExample_facts
      peaksExample_values)

subsection \<open>Interpolation at a local maximum\<close>

lemma localMaximum_curvature:
  assumes "localMaximum ac p"
  shows "ac ! nat (p - 1) - 2 * ac ! nat p + ac ! nat (p + 1) < 0 \<and>
         \<bar>parabolicInterpolation ac p - real_of_int p\<bar> < 1 / 2"
proof -
  define y0 where "y0 = ac ! nat (p - 1)"
  define y1 where "y1 = ac ! nat p"
  define y2 where "y2 = ac ! nat (p + 1)"
  have rng: "1 \<le> p \<and> p + 1 < int (length ac)" using assms localMaximum_elem by blast
  then have "elemAt ac p = Some y1" "elemAt ac (p - 1) = Some y0" "elemAt ac (p + 1) = Some y2"
    by (simp_all add: elemAt_def y0_def y1_def y2_def)
  then have gt: "y0 < y1" "y2 < y1" using assms by (simp_all add: localMaximum_def)
  define N where "N = y0 - y2"
  define D where "D = y0 - 2 * y1 + y2"
  have d: "D < 0" using gt by (simp add: D_def)
  have nd: "\<bar>N\<bar> < - D" using gt by (simp add: N_def D_def abs_if)
  have pi: "parabolicInterpolation ac p - real_of_int p = (1 / 2) * (N / D)"
    using rng by (simp add: parabolicInterpolation_def Let_def y0_def y1_def y2_def N_def D_def)
  have "\<bar>N / D\<bar> = \<bar>N\<bar> / \<bar>D\<bar>" by (rule abs_divide)
  also have "\<bar>D\<bar> = - D" using d by (rule abs_of_neg)
  also have "\<bar>N\<bar> / (- D) < 1"
  proof -
    define E where "E = - D"
    have "0 < E" "\<bar>N\<bar> < E" using d nd by (simp_all add: E_def)
    then have "\<bar>N\<bar> / E < 1" by simp
    then show ?thesis by (simp only: E_def)
  qed
  finally have "\<bar>N / D\<bar> < 1" .
  then have "\<bar>(1 / 2) * (N / D)\<bar> < 1 / 2" by (simp add: abs_mult)
  then show ?thesis using d pi by (simp add: D_def y0_def y1_def y2_def)
qed


subsection \<open>The smoothing buffer\<close>

lemma frequencyToNote_frequency: "frequency (frequencyToNote c f) = f"
  by (simp add: frequencyToNote_def Let_def)

lemma detectPitch_unsmoothed_buffer: "snd (detectPitch c buf rate False now sb) = sb"
  by (simp add: detectPitch_def Let_def split: sum.splits option.splits prod.splits)

lemma foldl_squares_zero: "\<forall>x\<in>set buf. x = 0 \<Longrightarrow> foldl (\<lambda>s x. s + x * x) (0::real) buf = 0"
  by (induction buf) simp_all

lemma detectPitch_silent:
  "buf \<noteq> [] \<Longrightarrow> windowRms buf < 0.01 \<Longrightarrow>
   detectPitch c buf rate True now sb = (Inr None, clear sb)"
  by (simp add: detectPitch_def windowRms_def Let_def)

lemma foldl_plus_sum_list: "foldl (\<lambda>acc val. acc + val) (a::real) xs = a + sum_list xs"
  by (induction xs arbitrary: a) simp_all

lemma getSmoothed_mean:
  "getSmoothed b = (if buffer b = [] then 0 else sum_list (buffer b) / real (length (buffer b)))"
  by (simp add: getSmoothed_def foldl_plus_sum_list)

lemma add_buffer:
  "buffer (add f b) = (if length (buffer b) < maxSize b then buffer b @ [f] else tl (buffer b @ [f]))"
  by (auto simp: add_def Let_def)

lemma add_maxSize: "maxSize (add f b) = maxSize b"
  by (simp add: add_def Let_def)

lemma add_length: "length (buffer b) \<le> maxSize b \<Longrightarrow> length (buffer (add f b)) \<le> maxSize b"
  by (auto simp: add_buffer)

lemma foldl_add_maxSize: "maxSize (foldl (\<lambda>b f. add f b) b fs) = maxSize b"
  by (induction fs arbitrary: b) (simp_all add: add_maxSize)

lemma foldl_add_last:
  "buffer (foldl (\<lambda>b f. add f b) (newPitchSmoothingBuffer n) fs) = drop (length fs - n) fs"
proof (induction fs rule: rev_induct)
  case Nil
  then show ?case by (simp add: newPitchSmoothingBuffer_def)
next
  case (snoc f fs)
  let ?b = "foldl (\<lambda>b f. add f b) (newPitchSmoothingBuffer n) fs"
  have m: "maxSize ?b = n" by (simp add: foldl_add_maxSize newPitchSmoothingBuffer_def)
  have l: "length (buffer ?b) = min (length fs) n" using snoc.IH by auto
  show ?case
  proof (cases "length fs < n")
    case True
    then show ?thesis using snoc.IH m l by (simp add: add_buffer)
  next
    case False
    then have "buffer (add f ?b) = tl (drop (length fs - n) fs @ [f])"
      using snoc.IH m l by (simp add: add_buffer)
    also have "\<dots> = drop (Suc (length fs) - n) (fs @ [f])"
    proof (cases "n = 0")
      case True
      then show ?thesis by simp
    next
      case n: False
      define k where "k = length fs - n"
      have k: "k < length fs" "Suc (length fs) - n = Suc k"
        using False n by (simp_all add: k_def Suc_diff_le)
      have "tl (drop k fs @ [f]) = tl (drop k fs) @ [f]" using k by simp
      also have "tl (drop k fs) = drop (Suc k) fs" by (simp add: drop_Suc tl_drop)
      also have "drop (Suc k) fs @ [f] = drop (Suc k) (fs @ [f])" using k by simp
      finally show ?thesis using k by (simp add: k_def)
    qed
    finally show ?thesis by simp
  qed
qed

lemma detectPitch_length:
  "length (buffer sb) \<le> maxSize sb \<Longrightarrow>
   length (buffer (snd (detectPitch c buf rate sm now sb))) \<le> maxSize sb"
  by (auto simp: detectPitch_def Let_def clear_def add_buffer split: sum.splits option.splits prod.splits)


lemma detectPitch_gated:
  "gatedDetection c buf rate = Some (raw, conf) \<Longrightarrow>
   detectPitch c buf rate True now sb =
     (if getSmoothed (add raw sb) < MIN_FREQUENCY c \<or> getSmoothed (add raw sb) > MAX_FREQUENCY c
      then (Inr None, clear (add raw sb))
      else (Inr (Some \<lparr>noteLabel = noteLabel (frequencyToNote c (getSmoothed (add raw sb))),
                       cents = cents (frequencyToNote c (getSmoothed (add raw sb))),
                       frequency = getSmoothed (add raw sb),
                       octave = octave (frequencyToNote c (getSmoothed (add raw sb))),
                       confidence = min conf 1, timestamp = now\<rparr>), add raw sb))"
  by (auto simp: gatedDetection_def detectPitch_def windowRms_def Let_def frequencyToNote_frequency
      split: sum.splits option.splits prod.splits if_splits)

lemma detectPitch_Some_gated:
  "detectPitch c buf rate True now sb = (Inr (Some p), sb') \<Longrightarrow>
   \<exists>raw conf. gatedDetection c buf rate = Some (raw, conf)"
  by (auto simp: gatedDetection_def detectPitch_def windowRms_def Let_def
      split: sum.splits option.splits prod.splits if_splits)

lemma detectPitch_None_cleared:
  "detectPitch c buf rate True now sb = (Inr None, sb') \<Longrightarrow> buffer sb' = []"
  by (auto simp: detectPitch_def Let_def clear_def
      split: sum.splits option.splits prod.splits if_splits)

lemma detectPitch_Some_buffer:
  assumes "detectPitch c buf rate True now sb = (Inr (Some p), sb')"
  shows "\<exists>raw conf. gatedDetection c buf rate = Some (raw, conf) \<and> sb' = add raw sb \<and>
           frequency p = getSmoothed sb' \<and> confidence p = min conf 1 \<and>
           MIN_FREQUENCY c \<le> frequency p \<and> frequency p \<le> MAX_FREQUENCY c"
proof -
  obtain raw conf where g: "gatedDetection c buf rate = Some (raw, conf)"
    using detectPitch_Some_gated [OF assms] by blast
  show ?thesis using assms g unfolding detectPitch_gated [OF g]
    by (auto split: if_splits)
qed

subsection \<open>Evaluation of the detector on the square wave\<close>

lemma sqrt_silence: "(sqrt x < 0.01) = (x < 0.0001)"
proof -
  have h: "sqrt (1 / 10000 :: real) = 1 / 100"
    by (rule real_sqrt_unique) (simp_all add: power2_eq_square)
  have "(sqrt x < 1 / 100) = (sqrt x < sqrt (1 / 10000))" by (simp only: h)
  also have "\<dots> = (x < 1 / 10000)" by (rule real_sqrt_less_iff)
  finally show ?thesis by simp
qed

lemma squareWindow_sumSquares: "foldl (\<lambda>s x. s + x * x) 0 squareWindow = 64"
  by code_simp

lemma squareWindow_length: "length squareWindow = 64"
  by code_simp

lemma squareWindow_normalized: "normalizeBuffer squareWindow = squareWindow"
  by code_simp

lemma squareWindow_autocorrelate:
  "autocorrelate exampleConstants squareWindow 8000 = Inr squareAutocorrelation"
  by code_simp

lemma squareWindow_findPeak: "findPeak exampleConstants squareAutocorrelation 8000 = Some (20, 11 / 16)"
  by code_simp

lemma squareWindow_interpolation: "parabolicInterpolation squareAutocorrelation 20 = 20"
  by code_simp

lemma exampleConstants_fields:
  "MIN_FREQUENCY exampleConstants = 80" "MAX_FREQUENCY exampleConstants = 1000"
  "MIN_CONFIDENCE_THRESHOLD exampleConstants = 1 / 2"
  "PITCH_SMOOTHING_BUFFER_SIZE exampleConstants = 5"
  by (simp_all add: exampleConstants_def)

lemma squareWindow_gatedDetection:
  "gatedDetection exampleConstants squareWindow 8000 = Some (400, 11 / 16)"
  unfolding gatedDetection_def windowRms_def
  by (simp add: squareWindow_sumSquares squareWindow_length squareWindow_normalized
      squareWindow_autocorrelate squareWindow_findPeak squareWindow_interpolation sqrt_silence
      exampleConstants_fields)

lemma localMaximum_zero: "\<forall>i<length ac. ac ! i = 0 \<Longrightarrow> \<not> localMaximum ac j"
  by (auto simp: localMaximum_def elemAt_def)

lemma autocorrelate_empty:
  "0 \<le> \<lfloor>rate / MIN_FREQUENCY c\<rfloor> \<Longrightarrow>
   autocorrelate c [] rate = Inr (replicate (nat \<lfloor>rate / MIN_FREQUENCY c\<rfloor>) 0)"
  by (simp add: autocorrelate_def Let_def map_replicate_const)

lemma detectPitch_empty:
  assumes "0 \<le> \<lfloor>rate / MIN_FREQUENCY c\<rfloor>"
  shows "detectPitch c [] rate True now sb = (Inr None, clear sb)"
proof -
  have "findPeak c (replicate (nat \<lfloor>rate / MIN_FREQUENCY c\<rfloor>) 0) rate = None"
    unfolding findPeak_None using localMaximum_zero by simp
  then show ?thesis
    by (simp add: detectPitch_def Let_def normalizeBuffer_def autocorrelate_empty [OF assms])
qed

lemma windowRms_zero: "\<forall>x\<in>set buf. x = 0 \<Longrightarrow> windowRms buf = 0"
  by (simp add: windowRms_def foldl_squares_zero)

subsection \<open>The claims about the detector\<close>

text \<open>
  Claim C6. With smoothing enabled, a window whose root mean square is below 0.01 makes
  \<^verbatim>\<open>detectPitch\<close> return \<^verbatim>\<open>null\<close> and leaves the smoothing buffer empty. Every
  all-zero window is such a window; for the window of length zero the same result comes
  from the peak search, provided the allocation of the autocorrelation succeeds.
\<close>

theorem silence_clears_buffer:
  "(buf \<noteq> [] \<and> windowRms buf < 0.01 \<longrightarrow>
      detectPitch c buf rate True now sb = (Inr None, clear sb)) \<and>
   (buf \<noteq> [] \<and> (\<forall>x\<in>set buf. x = 0) \<longrightarrow> windowRms buf < 0.01) \<and>
   ((\<forall>x\<in>set buf. x = 0) \<and> (buf = [] \<longrightarrow> 0 \<le> \<lfloor>rate / MIN_FREQUENCY c\<rfloor>) \<longrightarrow>
      detectPitch c buf rate True now sb = (Inr None, clear sb)) \<and>
   buffer (clear sb) = []"
proof (intro conjI impI)
  assume "buf \<noteq> [] \<and> windowRms buf < 0.01"
  then show "detectPitch c buf rate True now sb = (Inr None, clear sb)"
    using detectPitch_silent by blast
next
  assume "buf \<noteq> [] \<and> (\<forall>x\<in>set buf. x = 0)"
  then show "windowRms buf < 0.01" by (simp add: windowRms_zero)
next
  assume h: "(\<forall>x\<in>set buf. x = 0) \<and> (buf = [] \<longrightarrow> 0 \<le> \<lfloor>rate / MIN_FREQUENCY c\<rfloor>)"
  show "detectPitch c buf rate True now sb = (Inr None, clear sb)"
  proof (cases "buf = []")
    case True
    then show ?thesis using h detectPitch_empty by simp
  next
    case False
    moreover have "windowRms buf < 0.01" using h by (simp add: windowRms_zero)
    ultimately show ?thesis by (rule detectPitch_silent)
  qed
next
  show "buffer (clear sb) = []" by (simp add: clear_def)
qed

theorem silence_clears_buffer_witness:
  "windowRms [1 / 200, - 1 / 200, 1 / 200, - 1 / 200] < 0.01 \<and>
   detectPitch exampleConstants [1 / 200, - 1 / 200, 1 / 200, - 1 / 200] 44100 True 0
       \<lparr>buffer = [440, 441], maxSize = 5\<rparr>
     = (Inr None, \<lparr>buffer = [], maxSize = 5\<rparr>) \<and>
   detectPitch exampleConstants [0, 0, 0, 0] 44100 True 0 \<lparr>buffer = [440, 441], maxSize = 5\<rparr>
     = (Inr None, \<lparr>buffer = [], maxSize = 5\<rparr>) \<and>
   detectPitch exampleConstants [] 44100 True 0 \<lparr>buffer = [440, 441], maxSize = 5\<rparr>
     = (Inr None, \<lparr>buffer = [], maxSize = 5\<rparr>)"
proof -
  have quiet: "windowRms [1 / 200, - 1 / 200, 1 / 200, - 1 / 200] < 0.01"
    unfolding windowRms_def sqrt_silence by simp
  show ?thesis
    using quiet
      silence_clears_buffer [of "[1 / 200, - 1 / 200, 1 / 200, - 1 / 200]" exampleConstants 44100 0
        "\<lparr>buffer = [440, 441], maxSize = 5\<rparr>"]
      silence_clears_buffer [of "[0, 0, 0, 0]" exampleConstants 44100 0
        "\<lparr>buffer = [440, 441], maxSize = 5\<rparr>"]
      silence_clears_buffer [of "[]" exampleConstants 44100 0 "\<lparr>buffer = [440, 441], maxSize = 5\<rparr>"]
    by (simp add: clear_def exampleConstants_fields)
qed

text \<open>
  Claim C10. With \<^verbatim>\<open>enableSmoothing\<close> false, \<^verbatim>\<open>detectPitch\<close> returns the smoothing buffer
  it was given, on every path; a later call with smoothing enabled therefore gives what it
  would have given without the call.
\<close>

theorem smoothing_disabled_leaves_buffer:
  "snd (detectPitch c buf rate False now sb) = sb \<and>
   detectPitch c' buf' rate' True now' (snd (detectPitch c buf rate False now sb))
     = detectPitch c' buf' rate' True now' sb"
  by (simp add: detectPitch_unsmoothed_buffer)

theorem smoothing_disabled_leaves_buffer_witness:
  "snd (detectPitch exampleConstants [0, 0, 0, 0] 44100 False 0 \<lparr>buffer = [440, 441], maxSize = 5\<rparr>)
     = \<lparr>buffer = [440, 441], maxSize = 5\<rparr> \<and>
   snd (detectPitch exampleConstants squareWindow 8000 False 0 \<lparr>buffer = [440, 441], maxSize = 5\<rparr>)
     = \<lparr>buffer = [440, 441], maxSize = 5\<rparr>"
  using
    smoothing_disabled_leaves_buffer [of exampleConstants "[0, 0, 0, 0]" 44100 0
      "\<lparr>buffer = [440, 441], maxSize = 5\<rparr>"]
    smoothing_disabled_leaves_buffer [of exampleConstants squareWindow 8000 0
      "\<lparr>buffer = [440, 441], maxSize = 5\<rparr>"]
  by simp

text \<open>
  Claim C5. When a window passes the silence gate and the confidence gate, \<^verbatim>\<open>detectPitch\<close>
  with smoothing pushes the raw frequency and takes the mean of the buffer after the
  push: it reports that mean when it lies in the configured range, and otherwise clears
  the buffer and reports nothing. Every reported frequency arises this way. The mean is
  the sum of the entries over their number. A push appends and, when the buffer was
  full, drops the oldest entry, so a buffer within its maximum size stays within it, and
  from the empty buffer the last \<open>N\<close> pushed values remain.
\<close>

theorem smoothed_frequency_is_buffer_mean:
  "(gatedDetection c buf rate = Some (raw, conf) \<longrightarrow>
      detectPitch c buf rate True now sb =
        (if getSmoothed (add raw sb) < MIN_FREQUENCY c \<or> getSmoothed (add raw sb) > MAX_FREQUENCY c
         then (Inr None, clear (add raw sb))
         else (Inr (Some \<lparr>noteLabel = noteLabel (frequencyToNote c (getSmoothed (add raw sb))),
                          cents = cents (frequencyToNote c (getSmoothed (add raw sb))),
                          frequency = getSmoothed (add raw sb),
                          octave = octave (frequencyToNote c (getSmoothed (add raw sb))),
                          confidence = min conf 1, timestamp = now\<rparr>), add raw sb))) \<and>
   (detectPitch c buf rate True now sb = (Inr (Some p), sb') \<longrightarrow>
      (\<exists>raw conf. gatedDetection c buf rate = Some (raw, conf) \<and> sb' = add raw sb \<and>
         frequency p = getSmoothed sb' \<and> confidence p = min conf 1 \<and>
         MIN_FREQUENCY c \<le> frequency p \<and> frequency p \<le> MAX_FREQUENCY c)) \<and>
   getSmoothed b = (if buffer b = [] then 0 else sum_list (buffer b) / real (length (buffer b))) \<and>
   buffer (add f b) = (if length (buffer b) < maxSize b then buffer b @ [f] else tl (buffer b @ [f])) \<and>
   maxSize (add f b) = maxSize b \<and>
   (length (buffer b) \<le> maxSize b \<longrightarrow> length (buffer (add f b)) \<le> maxSize b) \<and>
   buffer (foldl (\<lambda>b f. add f b) (newPitchSmoothingBuffer n) fs) = drop (length fs - n) fs \<and>
   (length (buffer sb) \<le> maxSize sb \<longrightarrow>
      length (buffer (snd (detectPitch c buf rate sm now sb))) \<le> maxSize sb)"
proof (intro conjI impI)
  assume "gatedDetection c buf rate = Some (raw, conf)"
  then show "detectPitch c buf rate True now sb =
        (if getSmoothed (add raw sb) < MIN_FREQUENCY c \<or> getSmoothed (add raw sb) > MAX_FREQUENCY c
         then (Inr None, clear (add raw sb))
         else (Inr (Some \<lparr>noteLabel = noteLabel (frequencyToNote c (getSmoothed (add raw sb))),
                          cents = cents (frequencyToNote c (getSmoothed (add raw sb))),
                          frequency = getSmoothed (add raw sb),
                          octave = octave (frequencyToNote c (getSmoothed (add raw sb))),
                          confidence = min conf 1, timestamp = now\<rparr>), add raw sb))"
    by (rule detectPitch_gated)
next
  assume "detectPitch c buf rate True now sb = (Inr (Some p), sb')"
  then show "\<exists>raw conf. gatedDetection c buf rate = Some (raw, conf) \<and> sb' = add raw sb \<and>
         frequency p = getSmoothed sb' \<and> confidence p = min conf 1 \<and>
         MIN_FREQUENCY c \<le> frequency p \<and> frequency p \<le> MAX_FREQUENCY c"
    by (rule detectPitch_Some_buffer)
next
  show "getSmoothed b = (if buffer b = [] then 0 else sum_list (buffer b) / real (length (buffer b)))"
    by (rule getSmoothed_mean)
  show "buffer (add f b) = (if length (buffer b) < maxSize b then buffer b @ [f] else tl (buffer b @ [f]))"
    by (rule add_buffer)
  show "maxSize (add f b) = maxSize b" by (rule add_maxSize)
  show "buffer (foldl (\<lambda>b f. add f b) (newPitchSmoothingBuffer n) fs) = drop (length fs - n) fs"
    by (rule foldl_add_last)
next
  assume "length (buffer b) \<le> maxSize b"
  then show "length (buffer (add f b)) \<le> maxSize b" by (rule add_length)
next
  assume "length (buffer sb) \<le> maxSize sb"
  then show "length (buffer (snd (detectPitch c buf rate sm now sb))) \<le> maxSize sb"
    by (rule detectPitch_length)
qed

theorem smoothed_frequency_is_buffer_mean_witness:
  "gatedDetection exampleConstants squareWindow 8000 = Some (400, 11 / 16) \<and>
   detectPitch exampleConstants squareWindow 8000 True 0 \<lparr>buffer = [100, 380, 390, 420, 410], maxSize = 5\<rparr>
     = (Inr (Some \<lparr>noteLabel = noteLabel (frequencyToNote exampleConstants 400),
                   cents = cents (frequencyToNote exampleConstants 400),
                   frequency = (380 + 390 + 420 + 410 + 400) / 5,
                   octave = octave (frequencyToNote exampleConstants 400),
                   confidence = 11 / 16, timestamp = 0\<rparr>),
        \<lparr>buffer = [380, 390, 420, 410, 400], maxSize = 5\<rparr>)"
  using smoothed_frequency_is_buffer_mean [of exampleConstants squareWindow 8000 400 "11 / 16" 0
      "\<lparr>buffer = [100, 380, 390, 420, 410], maxSize = 5\<rparr>"]
  by (simp add: squareWindow_gatedDetection add_def getSmoothed_def exampleConstants_fields)

lemma detectPitchWithSensitivity_buffer:
  "snd (detectPitchWithSensitivity c buf rate s now sb) = snd (detectPitch c buf rate True now sb)"
  by (simp add: detectPitchWithSensitivity_def split: prod.splits sum.splits option.splits)

lemma calculateMetrics_buffer:
  "snd (calculateMetrics c td fd bd rate s now now' sb) = snd (detectPitch c td rate True now sb)"
  by (simp add: calculateMetrics_def Let_def split: prod.splits sum.splits option.splits)

lemma calculateMetrics_rejected:
  "detectPitch c td rate True now sb = (Inr (Some r), sb') \<Longrightarrow> confidence r < thresholds s \<Longrightarrow>
   map_option pitch (fst (calculateMetrics c td fd bd rate s now now' sb)) = Some None"
  by (simp add: calculateMetrics_def Let_def)

lemma getSmoothed_empty: "buffer b = [] \<Longrightarrow> getSmoothed b = 0"
  by (simp add: getSmoothed_def)

lemma add_last: "buffer (add f b) \<noteq> [] \<Longrightarrow> last (buffer (add f b)) = f"
  by (cases "buffer b") (auto simp: add_buffer split: if_splits)

lemma gatedDetection_confidence:
  "gatedDetection c buf rate = Some (raw, conf) \<Longrightarrow> MIN_CONFIDENCE_THRESHOLD c \<le> conf"
  by (auto simp: gatedDetection_def split: if_splits sum.splits option.splits prod.splits)

lemma thresholds_le: "thresholds s \<le> 85 / 100"
  by (cases s) simp_all

lemma detectPitch_confidence:
  assumes "detectPitch c buf rate True now sb = (Inr (Some p), sb')"
    and "85 / 100 \<le> MIN_CONFIDENCE_THRESHOLD c"
  shows "thresholds s \<le> confidence p"
proof -
  obtain raw conf where g: "gatedDetection c buf rate = Some (raw, conf)"
      and cp: "confidence p = min conf 1"
    using detectPitch_Some_buffer [OF assms(1)] by blast
  have "85 / 100 \<le> conf" using gatedDetection_confidence [OF g] assms(2) by simp
  then have "85 / 100 \<le> confidence p" unfolding cp by simp
  then show ?thesis using thresholds_le [of s] by simp
qed

lemma detectPitchWithSensitivity_inert:
  assumes "85 / 100 \<le> MIN_CONFIDENCE_THRESHOLD c"
  shows "detectPitchWithSensitivity c buf rate s now sb = detectPitch c buf rate True now sb"
proof (cases "detectPitch c buf rate True now sb")
  case (Pair res sb')
  show ?thesis
  proof (cases res)
    case (Inl e)
    then show ?thesis using Pair by (simp add: detectPitchWithSensitivity_def)
  next
    case (Inr r)
    show ?thesis
    proof (cases r)
      case None
      then show ?thesis using Pair Inr by (simp add: detectPitchWithSensitivity_def)
    next
      case (Some p)
      then have "detectPitch c buf rate True now sb = (Inr (Some p), sb')" using Pair Inr by simp
      then have "thresholds s \<le> confidence p" using assms by (rule detectPitch_confidence)
      then show ?thesis using Pair Inr Some by (simp add: detectPitchWithSensitivity_def)
    qed
  qed
qed

lemma detectPitchWithSensitivity_null_cleared:
  assumes "85 / 100 \<le> MIN_CONFIDENCE_THRESHOLD c"
    and "fst (detectPitchWithSensitivity c buf rate s now sb) = Inr None"
  shows "buffer (snd (detectPitchWithSensitivity c buf rate s now sb)) = []"
proof -
  have e: "detectPitchWithSensitivity c buf rate s now sb = detectPitch c buf rate True now sb"
    using assms(1) by (rule detectPitchWithSensitivity_inert)
  then have "detectPitch c buf rate True now sb
               = (Inr None, snd (detectPitchWithSensitivity c buf rate s now sb))"
    using assms(2) by (metis prod.collapse)
  then show ?thesis by (rule detectPitch_None_cleared)
qed

lemma squareWindow_gatedDetection_any:
  "m \<le> 11 / 16 \<Longrightarrow>
   gatedDetection (exampleConstants\<lparr>MIN_CONFIDENCE_THRESHOLD := m\<rparr>) squareWindow 8000
     = Some (400, 11 / 16)"
proof -
  assume m: "m \<le> 11 / 16"
  have a: "autocorrelate (exampleConstants\<lparr>MIN_CONFIDENCE_THRESHOLD := m\<rparr>) squareWindow 8000
             = autocorrelate exampleConstants squareWindow 8000"
    by (simp add: autocorrelate_def)
  have f: "findPeak (exampleConstants\<lparr>MIN_CONFIDENCE_THRESHOLD := m\<rparr>) squareAutocorrelation 8000
             = findPeak exampleConstants squareAutocorrelation 8000"
    by (simp add: findPeak_def zeroCrossing_def)
  show ?thesis
    unfolding gatedDetection_def windowRms_def
    using m
    by (simp add: squareWindow_sumSquares squareWindow_length squareWindow_normalized a f
        squareWindow_autocorrelate squareWindow_findPeak squareWindow_interpolation sqrt_silence)
qed

lemma later_detection_blends:
  assumes "gatedDetection c buf rate = Some (raw, conf)"
    and "MIN_FREQUENCY c \<le> (400 + raw) / 2" "(400 + raw) / 2 \<le> MAX_FREQUENCY c"
  shows "\<exists>p. detectPitch c buf rate True now \<lparr>buffer = [400], maxSize = 5\<rparr>
               = (Inr (Some p), \<lparr>buffer = [400, raw], maxSize = 5\<rparr>) \<and>
             frequency p = (400 + raw) / 2"
  unfolding detectPitch_gated [OF assms(1)] using assms(2,3)
  by (simp add: add_def getSmoothed_def)

text \<open>
  Claim C3. Every rejection inside \<^verbatim>\<open>detectPitch\<close> (silence, no peak or low confidence,
  smoothed frequency out of range) leaves the smoothing buffer empty. The rejection by the
  sensitivity threshold (0.85, 0.7, 0.5) is made after \<^verbatim>\<open>detectPitch\<close> has accepted the
  frame, by \<^verbatim>\<open>detectPitchWithSensitivity\<close> and by \<^verbatim>\<open>calculateMetrics\<close>: the reported pitch is
  \<^verbatim>\<open>null\<close>, and the buffer is not cleared. It is as \<^verbatim>\<open>detectPitch\<close> left it: not empty (for
  a positive minimum frequency), its last entry the raw frequency of the rejected frame,
  and the mean that a later detection reports includes that entry. Such a rejection needs
  a minimum confidence below 0.85: from 0.85 on the wrapper returns what \<^verbatim>\<open>detectPitch\<close>
  returns, and every \<^verbatim>\<open>null\<close> comes with an empty buffer. On the square wave the
  rejection happens at the medium sensitivity for every minimum confidence up to 11/16.
\<close>

theorem sensitivity_rejection_leaves_buffer:
  "(detectPitch c buf rate True now sb = (Inr (Some r), sb') \<and> confidence r < thresholds s \<longrightarrow>
      detectPitchWithSensitivity c buf rate s now sb = (Inr None, sb') \<and>
      map_option pitch (fst (calculateMetrics c buf fd bd rate s now now' sb)) = Some None \<and>
      snd (calculateMetrics c buf fd bd rate s now now' sb) = sb') \<and>
   (detectPitch c buf rate True now sb = (Inr (Some r), sb') \<and> 0 < MIN_FREQUENCY c \<longrightarrow>
      buffer sb' \<noteq> [] \<and>
      (\<exists>raw conf. gatedDetection c buf rate = Some (raw, conf) \<and> sb' = add raw sb \<and>
         last (buffer sb') = raw)) \<and>
   (detectPitch c buf rate True now sb = (Inr None, sb') \<longrightarrow> buffer sb' = []) \<and>
   (85 / 100 \<le> MIN_CONFIDENCE_THRESHOLD c \<longrightarrow>
      detectPitchWithSensitivity c buf rate s now sb = detectPitch c buf rate True now sb) \<and>
   (85 / 100 \<le> MIN_CONFIDENCE_THRESHOLD c \<and>
    fst (detectPitchWithSensitivity c buf rate s now sb) = Inr None \<longrightarrow>
      buffer (snd (detectPitchWithSensitivity c buf rate s now sb)) = []) \<and>
   (m \<le> 11 / 16 \<longrightarrow>
      detectPitchWithSensitivity (exampleConstants\<lparr>MIN_CONFIDENCE_THRESHOLD := m\<rparr>) squareWindow 8000
          Medium now (smoothingBuffer (exampleConstants\<lparr>MIN_CONFIDENCE_THRESHOLD := m\<rparr>))
        = (Inr None, \<lparr>buffer = [400], maxSize = 5\<rparr>)) \<and>
   (gatedDetection c buf rate = Some (raw2, conf2) \<and>
    MIN_FREQUENCY c \<le> (400 + raw2) / 2 \<and> (400 + raw2) / 2 \<le> MAX_FREQUENCY c \<longrightarrow>
      (\<exists>p. detectPitch c buf rate True now \<lparr>buffer = [400], maxSize = 5\<rparr>
              = (Inr (Some p), \<lparr>buffer = [400, raw2], maxSize = 5\<rparr>) \<and>
            frequency p = (400 + raw2) / 2)) \<and>
   thresholds Low = 0.85 \<and> thresholds Medium = 0.7 \<and> thresholds High = 0.5"
proof (intro conjI impI)
  assume h: "detectPitch c buf rate True now sb = (Inr (Some r), sb') \<and> confidence r < thresholds s"
  then show "detectPitchWithSensitivity c buf rate s now sb = (Inr None, sb')"
    by (simp add: detectPitchWithSensitivity_def)
  from h show "map_option pitch (fst (calculateMetrics c buf fd bd rate s now now' sb)) = Some None"
    using calculateMetrics_rejected by blast
  from h show "snd (calculateMetrics c buf fd bd rate s now now' sb) = sb'"
    by (simp add: calculateMetrics_buffer)
next
  assume h: "detectPitch c buf rate True now sb = (Inr (Some r), sb') \<and> 0 < MIN_FREQUENCY c"
  then obtain raw conf where g: "gatedDetection c buf rate = Some (raw, conf)" "sb' = add raw sb"
      "frequency r = getSmoothed sb'" "MIN_FREQUENCY c \<le> frequency r"
    using detectPitch_Some_buffer by blast
  then have "getSmoothed sb' \<noteq> 0" using h by simp
  then show ne: "buffer sb' \<noteq> []" using getSmoothed_empty by blast
  then have "last (buffer sb') = raw" using g(2) add_last by blast
  then show "\<exists>raw conf. gatedDetection c buf rate = Some (raw, conf) \<and> sb' = add raw sb \<and>
         last (buffer sb') = raw"
    using g by blast
next
  assume "detectPitch c buf rate True now sb = (Inr None, sb')"
  then show "buffer sb' = []" by (rule detectPitch_None_cleared)
next
  assume "85 / 100 \<le> MIN_CONFIDENCE_THRESHOLD c"
  then show "detectPitchWithSensitivity c buf rate s now sb = detectPitch c buf rate True now sb"
    by (rule detectPitchWithSensitivity_inert)
next
  assume "85 / 100 \<le> MIN_CONFIDENCE_THRESHOLD c \<and>
    fst (detectPitchWithSensitivity c buf rate s now sb) = Inr None"
  then show "buffer (snd (detectPitchWithSensitivity c buf rate s now sb)) = []"
    using detectPitchWithSensitivity_null_cleared by blast
next
  assume m: "m \<le> 11 / 16"
  show "detectPitchWithSensitivity (exampleConstants\<lparr>MIN_CONFIDENCE_THRESHOLD := m\<rparr>) squareWindow 8000
          Medium now (smoothingBuffer (exampleConstants\<lparr>MIN_CONFIDENCE_THRESHOLD := m\<rparr>))
        = (Inr None, \<lparr>buffer = [400], maxSize = 5\<rparr>)"
    by (simp add: detectPitchWithSensitivity_def
        detectPitch_gated [OF squareWindow_gatedDetection_any [OF m]]
        smoothingBuffer_def newPitchSmoothingBuffer_def add_def getSmoothed_def exampleConstants_fields)
next
  assume "gatedDetection c buf rate = Some (raw2, conf2) \<and>
    MIN_FREQUENCY c \<le> (400 + raw2) / 2 \<and> (400 + raw2) / 2 \<le> MAX_FREQUENCY c"
  then show "\<exists>p. detectPitch c buf rate True now \<lparr>buffer = [400], maxSize = 5\<rparr>
              = (Inr (Some p), \<lparr>buffer = [400, raw2], maxSize = 5\<rparr>) \<and>
            frequency p = (400 + raw2) / 2"
    using later_detection_blends by blast
qed simp_all

lemma exampleConstants_threshold:
  "exampleConstants\<lparr>MIN_CONFIDENCE_THRESHOLD := 1 / 2\<rparr> = exampleConstants"
  by (simp add: exampleConstants_def)

theorem sensitivity_rejection_leaves_buffer_witness:
  "(1 / 2 :: real) \<le> 11 / 16 \<and>
   (case fst (detectPitch exampleConstants squareWindow 8000 True 0 (smoothingBuffer exampleConstants)) of
      Inr (Some r) \<Rightarrow> confidence r = 11 / 16 \<and> confidence r < thresholds Medium
    | _ \<Rightarrow> False) \<and>
   detectPitchWithSensitivity exampleConstants squareWindow 8000 Medium 0
       (smoothingBuffer exampleConstants)
     = (Inr None, \<lparr>buffer = [400], maxSize = 5\<rparr>) \<and>
   map_option pitch (fst (calculateMetrics exampleConstants squareWindow (replicate 32 0)
          (replicate 32 0) 8000 Medium 0 1 (smoothingBuffer exampleConstants))) = Some None \<and>
   buffer (snd (calculateMetrics exampleConstants squareWindow (replicate 32 0)
          (replicate 32 0) 8000 Medium 0 1 (smoothingBuffer exampleConstants))) = [400] \<and>
   (case fst (detectPitch exampleConstants squareWindow 8000 True 1 \<lparr>buffer = [400], maxSize = 5\<rparr>) of
      Inr (Some p) \<Rightarrow> frequency p = (400 + 400) / 2
    | _ \<Rightarrow> False)"
  using sensitivity_rejection_leaves_buffer [of exampleConstants squareWindow 8000 0
      "smoothingBuffer exampleConstants" _ _ Medium _ _ _ "1 / 2" 400 "11 / 16"]
  by (simp add: exampleConstants_threshold calculateMetrics_def Let_def
      detectPitch_gated [OF squareWindow_gatedDetection]
      smoothingBuffer_def newPitchSmoothingBuffer_def add_def getSmoothed_def exampleConstants_fields)

section \<open>Properties of the spectral metrics\<close>

lemma getVolume_loop:
  "foldl (\<lambda>(s, n) b. let normalized = real (unat b) / 255 in (s + normalized * normalized, n + 1))
     (s0, n0 :: nat) (buf :: 8 word list)
   = (s0 + sum_list (map (\<lambda>b. (real (unat b) / 255)\<^sup>2) buf), n0 + length buf)"
  by (induction buf arbitrary: s0 n0) (simp_all add: Let_def power2_eq_square algebra_simps)

lemma getVolume_eq:
  "getVolume buf =
     (if buf = [] \<or> rmsBins buf = 0 then - 100
      else max (- 100) (min 0 (20 * log 10 (rmsBins buf))))"
proof -
  have "foldl (\<lambda>(s, n) b. let normalized = real (unat b) / 255 in (s + normalized * normalized, n + 1))
     (0, 0 :: nat) buf = (sum_list (map (\<lambda>b. (real (unat b) / 255)\<^sup>2) buf), length buf)"
    using getVolume_loop [of 0 0 buf] by simp
  then show ?thesis unfolding getVolume_def rmsBins_def by (simp add: Let_def)
qed

lemma rmsBins_zero: "\<forall>b\<in>set buf. b = 0 \<Longrightarrow> rmsBins buf = 0"
proof -
  assume "\<forall>b\<in>set buf. b = 0"
  then have "sum_list (map (\<lambda>b. (real (unat b) / 255)\<^sup>2) buf) = 0"
    by (induction buf) simp_all
  then show ?thesis by (simp add: rmsBins_def)
qed

lemma rmsBins_full: "buf \<noteq> [] \<Longrightarrow> \<forall>b\<in>set buf. b = 255 \<Longrightarrow> rmsBins buf = 1"
proof -
  assume ne: "buf \<noteq> []" and all: "\<forall>b\<in>set buf. b = 255"
  have "\<forall>b\<in>set buf. b = 255 \<Longrightarrow>
        sum_list (map (\<lambda>b. (real (unat b) / 255)\<^sup>2) buf) = real (length buf)"
    by (induction buf) simp_all
  then show ?thesis using ne all by (simp add: rmsBins_def)
qed

lemma rmsBins_range: "0 \<le> rmsBins buf \<and> rmsBins buf \<le> 1"
proof -
  have le: "sum_list (map (\<lambda>b. (real (unat b) / 255)\<^sup>2) buf) \<le> real (length buf)"
  proof (induction buf)
    case Nil
    then show ?case by simp
  next
    case (Cons b buf)
    have "unat b < 2 ^ LENGTH(8)" by (rule unsigned_less)
    then have "unat b \<le> 255" by simp
    then have "real (unat b) \<le> real 255" by (rule of_nat_mono)
    then have "real (unat b) / 255 \<le> 1" by simp
    moreover have "0 \<le> real (unat b) / 255" by (rule divide_nonneg_nonneg) (rule of_nat_0_le_iff, simp)
    ultimately have "(real (unat b) / 255)\<^sup>2 \<le> 1" by (simp add: power_le_one)
    then show ?case using Cons.IH by simp
  qed
  have ge: "0 \<le> sum_list (map (\<lambda>b. (real (unat b) / 255)\<^sup>2) buf)"
    by (rule sum_list_nonneg) auto
  have "sum_list (map (\<lambda>b. (real (unat b) / 255)\<^sup>2) buf) / real (length buf) \<le> 1"
    using le by (cases "buf = []") (simp_all add: divide_le_eq)
  then have "rmsBins buf \<le> 1" unfolding rmsBins_def using real_sqrt_le_1_iff by blast
  moreover have "0 \<le> rmsBins buf" unfolding rmsBins_def using ge by simp
  ultimately show ?thesis by simp
qed


text \<open>
  Claim C7. \<^verbatim>\<open>getVolume\<close> is \<open>max (-100) (min 0 (20 * log10 rms))\<close> for the root mean
  square \<open>rms\<close> of the bins divided by 255, which lies between 0 and 1; it is \<open>-100\<close> for
  an empty buffer and when \<open>rms\<close> is 0, so for an all-zero buffer; it is 0 for a non-empty
  buffer of bins that are all 255; and it always lies between \<open>-100\<close> and 0.
\<close>

theorem getVolume_clamped_decibels:
  "getVolume buf =
     (if buf = [] \<or> rmsBins buf = 0 then - 100
      else max (- 100) (min 0 (20 * log 10 (rmsBins buf)))) \<and>
   0 \<le> rmsBins buf \<and> rmsBins buf \<le> 1 \<and>
   - 100 \<le> getVolume buf \<and> getVolume buf \<le> 0 \<and>
   ((\<forall>b\<in>set buf. b = 0) \<longrightarrow> getVolume buf = - 100) \<and>
   (buf \<noteq> [] \<and> (\<forall>b\<in>set buf. b = 255) \<longrightarrow> getVolume buf = 0)"
proof (intro conjI impI)
  show "getVolume buf =
     (if buf = [] \<or> rmsBins buf = 0 then - 100
      else max (- 100) (min 0 (20 * log 10 (rmsBins buf))))" by (rule getVolume_eq)
  show "0 \<le> rmsBins buf" "rmsBins buf \<le> 1" using rmsBins_range by simp_all
  show "- 100 \<le> getVolume buf" "getVolume buf \<le> 0" by (simp_all add: getVolume_eq)
next
  assume "\<forall>b\<in>set buf. b = 0"
  then show "getVolume buf = - 100" by (simp add: getVolume_eq rmsBins_zero)
next
  assume "buf \<noteq> [] \<and> (\<forall>b\<in>set buf. b = 255)"
  then show "getVolume buf = 0" by (simp add: getVolume_eq rmsBins_full)
qed

theorem getVolume_clamped_decibels_witness:
  "getVolume [255, 255, 255] = 0 \<and> getVolume [0, 0] = - 100 \<and> getVolume [] = - 100"
  using getVolume_clamped_decibels [of "[255, 255, 255]"] getVolume_clamped_decibels [of "[0, 0]"]
    getVolume_clamped_decibels [of "[]"]
  by simp

section \<open>Properties of the note mapping\<close>

lemma frequencyToNote_label:
  "noteLabel (frequencyToNote c f) = semitoneLabel c (nearestSemitoneOf f)"
  by (simp add: frequencyToNote_def semitoneLabel_def nearestSemitoneOf_def Let_def)

lemma nearestSemitoneOf_mono:
  assumes "0 < f" "f \<le> g"
  shows "nearestSemitoneOf f \<le> nearestSemitoneOf g"
proof -
  have "log 2 (f / A4_FREQUENCY) \<le> log 2 (g / A4_FREQUENCY)"
    using assms by (simp add: A4_FREQUENCY_def divide_right_mono)
  then have "real_of_int SEMITONES_PER_OCTAVE * log 2 (f / A4_FREQUENCY) + 1 / 2
             \<le> real_of_int SEMITONES_PER_OCTAVE * log 2 (g / A4_FREQUENCY) + 1 / 2"
    by (simp add: SEMITONES_PER_OCTAVE_def)
  then show ?thesis unfolding nearestSemitoneOf_def jsRound_def by (rule floor_mono)
qed

lemma two_powr_24th_le: "2 powr (1 / 24) \<le> (103 / 100 :: real)"
proof -
  have "(2 :: real) \<le> (103 / 100) ^ 24" by (simp add: power_divide)
  then have "(2 :: real) powr (1 / 24) \<le> ((103 / 100) ^ 24) powr (1 / 24)"
    by (intro powr_mono2) simp_all
  also have "((103 / 100 :: real) ^ 24) powr (1 / 24) = 103 / 100"
    by (simp add: powr_powr flip: powr_numeral)
  finally show ?thesis .
qed

lemma two_powr_12th_ge: "(1059 / 1000 :: real) \<le> 2 powr (1 / 12)"
proof -
  have "(1059 / 1000) ^ 12 \<le> (2 :: real)" by (simp add: power_divide)
  then have "((1059 / 1000 :: real) ^ 12) powr (1 / 12) \<le> 2 powr (1 / 12)"
    by (intro powr_mono2) simp_all
  moreover have "((1059 / 1000 :: real) ^ 12) powr (1 / 12) = 1059 / 1000"
    by (simp add: powr_powr flip: powr_numeral)
  ultimately show ?thesis by simp
qed

lemma roundtrip_bounds:
  assumes f: "1 \<le> f"
    and t: "\<bar>t - A4_FREQUENCY * 2 powr (real_of_int (nearestSemitoneOf f) / 12)\<bar> \<le> 0.01"
  shows "f / 2 powr (1 / 12) < t \<and> t < f * 2 powr (1 / 12)"
proof -
  define x where "x = 12 * log 2 (f / 440)"
  define n where "n = nearestSemitoneOf f"
  have n_def': "n = \<lfloor>x + 1 / 2\<rfloor>"
    by (simp add: n_def nearestSemitoneOf_def jsRound_def x_def SEMITONES_PER_OCTAVE_def A4_FREQUENCY_def)
  have lo: "real_of_int n \<le> x + 1 / 2" unfolding n_def' by (rule of_int_floor_le)
  have hi: "x + 1 / 2 < real_of_int n + 1" unfolding n_def' by linarith
  have fpos: "0 < f" using f by simp
  have fx: "f = 440 * 2 powr (x / 12)"
    using fpos by (simp add: x_def)
  define ideal where "ideal = 440 * 2 powr (real_of_int n / 12)"
  have ratio: "ideal = f * 2 powr ((real_of_int n - x) / 12)"
    unfolding ideal_def fx by (simp add: powr_add [symmetric] diff_divide_distrib)
  have up: "2 powr ((real_of_int n - x) / 12) \<le> 2 powr (1 / 24)"
    using lo by (intro powr_mono) simp_all
  have dn: "2 powr (- (1 / 24)) < 2 powr ((real_of_int n - x) / 12)"
    using hi by (intro powr_less_mono) simp_all
  have a: "ideal \<le> f * (103 / 100)"
  proof -
    have "ideal \<le> f * 2 powr (1 / 24)" unfolding ratio using up fpos by simp
    also have "\<dots> \<le> f * (103 / 100)" using two_powr_24th_le fpos by simp
    finally show ?thesis .
  qed
  have b: "f * (100 / 103) < ideal"
  proof -
    have "(100 / 103 :: real) \<le> 2 powr (- (1 / 24))"
      using two_powr_24th_le by (simp add: powr_minus field_simps)
    then have "f * (100 / 103) \<le> f * 2 powr (- (1 / 24))" using fpos by simp
    also have "\<dots> < ideal" unfolding ratio using dn fpos by simp
    finally show ?thesis .
  qed
  have "\<bar>t - ideal\<bar> \<le> 1 / 100"
    using t unfolding ideal_def n_def A4_FREQUENCY_def by simp
  then have tb: "ideal - 1 / 100 \<le> t" "t \<le> ideal + 1 / 100"
    by linarith+
  have upper: "t < f * 2 powr (1 / 12)"
  proof -
    have "t \<le> f * (103 / 100) + 1 / 100" using tb a by simp
    also have "\<dots> < f * (1059 / 1000)" using f by simp
    also have "\<dots> \<le> f * 2 powr (1 / 12)" using two_powr_12th_ge fpos by simp
    finally show ?thesis .
  qed
  have lower: "f / 2 powr (1 / 12) < t"
  proof -
    have "1 / 2 powr (1 / 12) \<le> (1000 / 1059 :: real)"
      using two_powr_12th_ge by (simp add: field_simps)
    then have "f * (1 / 2 powr (1 / 12)) \<le> f * (1000 / 1059)"
      using fpos by (intro mult_left_mono) simp_all
    then have "f / 2 powr (1 / 12) \<le> f * (1000 / 1059)" by simp
    also have "\<dots> \<le> f * (100 / 103) - 1 / 100" using f by simp
    also have "\<dots> < t" using tb b by simp
    finally show ?thesis .
  qed
  show ?thesis using lower upper by simp
qed

text \<open>
  Claim C9. For a table of equal-temperament frequencies that covers the configured
  range (see \<open>equalTemperedTable\<close>) and a range that starts at 1 Hz or above, every
  frequency \<open>f\<close> of the range has \<^verbatim>\<open>noteToFrequency(frequencyToNote(f).note)\<close> present,
  strictly within a factor \<open>2 powr (1 / 12)\<close> of \<open>f\<close>.
\<close>

theorem roundtrip_within_one_semitone:
  "equalTemperedTable c \<and> 1 \<le> MIN_FREQUENCY c \<and> MIN_FREQUENCY c \<le> f \<and> f \<le> MAX_FREQUENCY c \<longrightarrow>
     (\<exists>t. noteToFrequency c (noteLabel (frequencyToNote c f)) = Some t \<and>
          f / 2 powr (1 / 12) < t \<and> t < f * 2 powr (1 / 12))"
proof
  assume h: "equalTemperedTable c \<and> 1 \<le> MIN_FREQUENCY c \<and> MIN_FREQUENCY c \<le> f \<and> f \<le> MAX_FREQUENCY c"
  then have f: "1 \<le> f" by simp
  have "nearestSemitoneOf (MIN_FREQUENCY c) \<le> nearestSemitoneOf f"
    using h by (intro nearestSemitoneOf_mono) simp_all
  moreover have "nearestSemitoneOf f \<le> nearestSemitoneOf (MAX_FREQUENCY c)"
    using h f by (intro nearestSemitoneOf_mono) simp_all
  ultimately have "tableEntryOk c (nearestSemitoneOf f)"
    using h unfolding equalTemperedTable_def by blast
  then obtain t where t: "NOTE_FREQUENCIES c (semitoneLabel c (nearestSemitoneOf f)) = Some t"
      "\<bar>t - A4_FREQUENCY * 2 powr (real_of_int (nearestSemitoneOf f) / 12)\<bar> \<le> 0.01"
    unfolding tableEntryOk_def by (auto split: option.splits)
  have "noteToFrequency c (noteLabel (frequencyToNote c f)) = Some t"
    using t(1) by (simp add: noteToFrequency_def frequencyToNote_label)
  then show "\<exists>t. noteToFrequency c (noteLabel (frequencyToNote c f)) = Some t \<and>
          f / 2 powr (1 / 12) < t \<and> t < f * 2 powr (1 / 12)"
    using roundtrip_bounds [OF f t(2)] by blast
qed

subsection \<open>The table of the repository is such a table\<close>

lemma twelfth_root_bounds:
  assumes "0 \<le> lo" "lo ^ 12 \<le> 2 powr real_of_int n" "2 powr real_of_int n \<le> hi ^ 12" "0 \<le> hi"
  shows "lo \<le> 2 powr (real_of_int n / 12) \<and> 2 powr (real_of_int n / 12) \<le> hi"
proof -
  have r: "(2 powr real_of_int n) powr (1 / 12) = 2 powr (real_of_int n / 12)"
    by (simp add: powr_powr)
  have root: "\<And>a :: real. 0 \<le> a \<Longrightarrow> (a ^ 12) powr (1 / 12) = a"
    by (simp add: powr_powr flip: powr_numeral)
  have "(lo ^ 12) powr (1 / 12) \<le> (2 powr real_of_int n) powr (1 / 12)"
    using assms by (intro powr_mono2) simp_all
  moreover have "(2 powr real_of_int n) powr (1 / 12) \<le> (hi ^ 12) powr (1 / 12)"
    using assms by (intro powr_mono2) simp_all
  ultimately show ?thesis using root assms r by simp
qed

lemma tableEntryOkI:
  assumes "semitoneLabel c n = l" "NOTE_FREQUENCIES c l = Some t" "1 / 100 \<le> t"
    and "((t - 1 / 100) / 440) ^ 12 \<le> 2 powr real_of_int n"
    and "2 powr real_of_int n \<le> ((t + 1 / 100) / 440) ^ 12"
  shows "tableEntryOk c n"
proof -
  have "(t - 1 / 100) / 440 \<le> 2 powr (real_of_int n / 12) \<and>
        2 powr (real_of_int n / 12) \<le> (t + 1 / 100) / 440"
    using assms by (intro twelfth_root_bounds) simp_all
  then have "t - 1 / 100 \<le> 440 * 2 powr (real_of_int n / 12)"
      "440 * 2 powr (real_of_int n / 12) \<le> t + 1 / 100"
    by (simp_all add: field_simps)
  then have "\<bar>t - 440 * 2 powr (real_of_int n / 12)\<bar> \<le> 1 / 100"
    by linarith
  then show ?thesis using assms(1,2) by (simp add: tableEntryOk_def A4_FREQUENCY_def)
qed

lemma nearestSemitoneOfI:
  assumes "0 < f" "2 powr real_of_int (2 * n - 1) \<le> (f / 440) ^ 24"
    and "(f / 440) ^ 24 < 2 powr real_of_int (2 * n + 1)"
  shows "nearestSemitoneOf f = n"
proof -
  define L where "L = log 2 (f / 440)"
  have x: "0 < f / 440" using assms(1) by simp
  have p: "(f / 440) ^ 24 = 2 powr (24 * L)"
    using x by (simp add: L_def powr_powr [symmetric] mult.commute [of 24] flip: powr_numeral)
  have "real_of_int (2 * n - 1) \<le> 24 * L" using assms(2) unfolding p by simp
  moreover have "24 * L < real_of_int (2 * n + 1)" using assms(3) unfolding p by simp
  ultimately have "real_of_int n \<le> 12 * L + 1 / 2" "12 * L + 1 / 2 < real_of_int n + 1"
    by simp_all
  then have "\<lfloor>12 * L + 1 / 2\<rfloor> = n" by (intro floor_unique) simp_all
  then show ?thesis
    by (simp add: nearestSemitoneOf_def jsRound_def L_def SEMITONES_PER_OCTAVE_def A4_FREQUENCY_def)
qed

lemma exampleConstants_lookup:
  "NOTE_FREQUENCIES exampleConstants l = map_of noteTable l"
  "NOTE_NAMES exampleConstants = [''C'', ''C#'', ''D'', ''D#'', ''E'', ''F'', ''F#'', ''G'', ''G#'', ''A'', ''A#'', ''B'']"
  by (simp_all add: exampleConstants_def)

lemma exampleConstants_semitones:
  "nearestSemitoneOf (MIN_FREQUENCY exampleConstants) = - 30"
  "nearestSemitoneOf (MAX_FREQUENCY exampleConstants) = 14"
  "nearestSemitoneOf 445 = 0"
  by (rule nearestSemitoneOfI; simp add: exampleConstants_def powr_neg_numeral powr_neg_one power_divide)+
lemma exampleConstants_labels:
  "semitoneLabel exampleConstants (- 30) = ''D#2''"
  "semitoneLabel exampleConstants (- 29) = ''E2''"
  "semitoneLabel exampleConstants (- 28) = ''F2''"
  "semitoneLabel exampleConstants (- 27) = ''F#2''"
  "semitoneLabel exampleConstants (- 26) = ''G2''"
  "semitoneLabel exampleConstants (- 25) = ''G#2''"
  "semitoneLabel exampleConstants (- 24) = ''A2''"
  "semitoneLabel exampleConstants (- 23) = ''A#2''"
  "semitoneLabel exampleConstants (- 22) = ''B2''"
  "semitoneLabel exampleConstants (- 21) = ''C3''"
  "semitoneLabel exampleConstants (- 20) = ''C#3''"
  "semitoneLabel exampleConstants (- 19) = ''D3''"
  "semitoneLabel exampleConstants (- 18) = ''D#3''"
  "semitoneLabel exampleConstants (- 17) = ''E3''"
  "semitoneLabel exampleConstants (- 16) = ''F3''"
  "semitoneLabel exampleConstants (- 15) = ''F#3''"
  "semitoneLabel exampleConstants (- 14) = ''G3''"
  "semitoneLabel exampleConstants (- 13) = ''G#3''"
  "semitoneLabel exampleConstants (- 12) = ''A3''"
  "semitoneLabel exampleConstants (- 11) = ''A#3''"
  "semitoneLabel exampleConstants (- 10) = ''B3''"
  "semitoneLabel exampleConstants (- 9) = ''C4''"
  "semitoneLabel exampleConstants (- 8) = ''C#4''"
  "semitoneLabel exampleConstants (- 7) = ''D4''"
  "semitoneLabel exampleConstants (- 6) = ''D#4''"
  "semitoneLabel exampleConstants (- 5) = ''E4''"
  "semitoneLabel exampleConstants (- 4) = ''F4''"
  "semitoneLabel exampleConstants (- 3) = ''F#4''"
  "semitoneLabel exampleConstants (- 2) = ''G4''"
  "semitoneLabel exampleConstants (- 1) = ''G#4''"
  "semitoneLabel exampleConstants (0) = ''A4''"
  "semitoneLabel exampleConstants (1) = ''A#4''"
  "semitoneLabel exampleConstants (2) = ''B4''"
  "semitoneLabel exampleConstants (3) = ''C5''"
  "semitoneLabel exampleConstants (4) = ''C#5''"
  "semitoneLabel exampleConstants (5) = ''D5''"
  "semitoneLabel exampleConstants (6) = ''D#5''"
  "semitoneLabel exampleConstants (7) = ''E5''"
  "semitoneLabel exampleConstants (8) = ''F5''"
  "semitoneLabel exampleConstants (9) = ''F#5''"
  "semitoneLabel exampleConstants (10) = ''G5''"
  "semitoneLabel exampleConstants (11) = ''G#5''"
  "semitoneLabel exampleConstants (12) = ''A5''"
  "semitoneLabel exampleConstants (13) = ''A#5''"
  "semitoneLabel exampleConstants (14) = ''B5''"
  by code_simp+

lemma entry_m30: "tableEntryOk exampleConstants (- 30)"
  by (rule tableEntryOkI [where l = "''D#2''" and t = "3889 / 50"])
    (simp_all add: exampleConstants_labels exampleConstants_lookup noteTable_def powr_neg_numeral
      powr_neg_one power_divide)

lemma entry_m29: "tableEntryOk exampleConstants (- 29)"
  by (rule tableEntryOkI [where l = "''E2''" and t = "8241 / 100"])
    (simp_all add: exampleConstants_labels exampleConstants_lookup noteTable_def powr_neg_numeral
      powr_neg_one power_divide)

lemma entry_m28: "tableEntryOk exampleConstants (- 28)"
  by (rule tableEntryOkI [where l = "''F2''" and t = "8731 / 100"])
    (simp_all add: exampleConstants_labels exampleConstants_lookup noteTable_def powr_neg_numeral
      powr_neg_one power_divide)

lemma entry_m27: "tableEntryOk exampleConstants (- 27)"
  by (rule tableEntryOkI [where l = "''F#2''" and t = "185 / 2"])
    (simp_all add: exampleConstants_labels exampleConstants_lookup noteTable_def powr_neg_numeral
      powr_neg_one power_divide)

lemma entry_m26: "tableEntryOk exampleConstants (- 26)"
  by (rule tableEntryOkI [where l = "''G2''" and t = "98"])
    (simp_all add: exampleConstants_labels exampleConstants_lookup noteTable_def powr_neg_numeral
      powr_neg_one power_divide)

lemma entry_m25: "tableEntryOk exampleConstants (- 25)"
  by (rule tableEntryOkI [where l = "''G#2''" and t = "10383 / 100"])
    (simp_all add: exampleConstants_labels exampleConstants_lookup noteTable_def powr_neg_numeral
      powr_neg_one power_divide)

lemma entry_m24: "tableEntryOk exampleConstants (- 24)"
  by (rule tableEntryOkI [where l = "''A2''" and t = "110"])
    (simp_all add: exampleConstants_labels exampleConstants_lookup noteTable_def powr_neg_numeral
      powr_neg_one power_divide)

lemma entry_m23: "tableEntryOk exampleConstants (- 23)"
  by (rule tableEntryOkI [where l = "''A#2''" and t = "5827 / 50"])
    (simp_all add: exampleConstants_labels exampleConstants_lookup noteTable_def powr_neg_numeral
      powr_neg_one power_divide)

lemma entry_m22: "tableEntryOk exampleConstants (- 22)"
  by (rule tableEntryOkI [where l = "''B2''" and t = "12347 / 100"])
    (simp_all add: exampleConstants_labels exampleConstants_lookup noteTable_def powr_neg_numeral
      powr_neg_one power_divide)

lemma entry_m21: "tableEntryOk exampleConstants (- 21)"
  by (rule tableEntryOkI [where l = "''C3''" and t = "13081 / 100"])
    (simp_all add: exampleConstants_labels exampleConstants_lookup noteTable_def powr_neg_numeral
      powr_neg_one power_divide)

lemma entry_m20: "tableEntryOk exampleConstants (- 20)"
  by (rule tableEntryOkI [where l = "''C#3''" and t = "13859 / 100"])
    (simp_all add: exampleConstants_labels exampleConstants_lookup noteTable_def powr_neg_numeral
      powr_neg_one power_divide)

lemma entry_m19: "tableEntryOk exampleConstants (- 19)"
  by (rule tableEntryOkI [where l = "''D3''" and t = "14683 / 100"])
    (simp_all add: exampleConstants_labels exampleConstants_lookup noteTable_def powr_neg_numeral
      powr_neg_one power_divide)

lemma entry_m18: "tableEntryOk exampleConstants (- 18)"
  by (rule tableEntryOkI [where l = "''D#3''" and t = "3889 / 25"])
    (simp_all add: exampleConstants_labels exampleConstants_lookup noteTable_def powr_neg_numeral
      powr_neg_one power_divide)

lemma entry_m17: "tableEntryOk exampleConstants (- 17)"
  by (rule tableEntryOkI [where l = "''E3''" and t = "16481 / 100"])
    (simp_all add: exampleConstants_labels exampleConstants_lookup noteTable_def powr_neg_numeral
      powr_neg_one power_divide)

lemma entry_m16: "tableEntryOk exampleConstants (- 16)"
  by (rule tableEntryOkI [where l = "''F3''" and t = "17461 / 100"])
    (simp_all add: exampleConstants_labels exampleConstants_lookup noteTable_def powr_neg_numeral
      powr_neg_one power_divide)

lemma entry_m15: "tableEntryOk exampleConstants (- 15)"
  by (rule tableEntryOkI [where l = "''F#3''" and t = "185"])
    (simp_all add: exampleConstants_labels exampleConstants_lookup noteTable_def powr_neg_numeral
      powr_neg_one power_divide)

lemma entry_m14: "tableEntryOk exampleConstants (- 14)"
  by (rule tableEntryOkI [where l = "''G3''" and t = "196"])
    (simp_all add: exampleConstants_labels exampleConstants_lookup noteTable_def powr_neg_numeral
      powr_neg_one power_divide)

lemma entry_m13: "tableEntryOk exampleConstants (- 13)"
  by (rule tableEntryOkI [where l = "''G#3''" and t = "4153 / 20"])
    (simp_all add: exampleConstants_labels exampleConstants_lookup noteTable_def powr_neg_numeral
      powr_neg_one power_divide)

lemma entry_m12: "tableEntryOk exampleConstants (- 12)"
  by (rule tableEntryOkI [where l = "''A3''" and t = "220"])
    (simp_all add: exampleConstants_labels exampleConstants_lookup noteTable_def powr_neg_numeral
      powr_neg_one power_divide)

lemma entry_m11: "tableEntryOk exampleConstants (- 11)"
  by (rule tableEntryOkI [where l = "''A#3''" and t = "5827 / 25"])
    (simp_all add: exampleConstants_labels exampleConstants_lookup noteTable_def powr_neg_numeral
      powr_neg_one power_divide)

lemma entry_m10: "tableEntryOk exampleConstants (- 10)"
  by (rule tableEntryOkI [where l = "''B3''" and t = "12347 / 50"])
    (simp_all add: exampleConstants_labels exampleConstants_lookup noteTable_def powr_neg_numeral
      powr_neg_one power_divide)

lemma entry_m9: "tableEntryOk exampleConstants (- 9)"
  by (rule tableEntryOkI [where l = "''C4''" and t = "26163 / 100"])
    (simp_all add: exampleConstants_labels exampleConstants_lookup noteTable_def powr_neg_numeral
      powr_neg_one power_divide)

lemma entry_m8: "tableEntryOk exampleConstants (- 8)"
  by (rule tableEntryOkI [where l = "''C#4''" and t = "13859 / 50"])
    (simp_all add: exampleConstants_labels exampleConstants_lookup noteTable_def powr_neg_numeral
      powr_neg_one power_divide)

lemma entry_m7: "tableEntryOk exampleConstants (- 7)"
  by (rule tableEntryOkI [where l = "''D4''" and t = "14683 / 50"])
    (simp_all add: exampleConstants_labels exampleConstants_lookup noteTable_def powr_neg_numeral
      powr_neg_one power_divide)

lemma entry_m6: "tableEntryOk exampleConstants (- 6)"
  by (rule tableEntryOkI [where l = "''D#4''" and t = "31113 / 100"])
    (simp_all add: exampleConstants_labels exampleConstants_lookup noteTable_def powr_neg_numeral
      powr_neg_one power_divide)

lemma entry_m5: "tableEntryOk exampleConstants (- 5)"
  by (rule tableEntryOkI [where l = "''E4''" and t = "32963 / 100"])
    (simp_all add: exampleConstants_labels exampleConstants_lookup noteTable_def powr_neg_numeral
      powr_neg_one power_divide)

lemma entry_m4: "tableEntryOk exampleConstants (- 4)"
  by (rule tableEntryOkI [where l = "''F4''" and t = "34923 / 100"])
    (simp_all add: exampleConstants_labels exampleConstants_lookup noteTable_def powr_neg_numeral
      powr_neg_one power_divide)

lemma entry_m3: "tableEntryOk exampleConstants (- 3)"
  by (rule tableEntryOkI [where l = "''F#4''" and t = "36999 / 100"])
    (simp_all add: exampleConstants_labels exampleConstants_lookup noteTable_def powr_neg_numeral
      powr_neg_one power_divide)

lemma entry_m2: "tableEntryOk exampleConstants (- 2)"
  by (rule tableEntryOkI [where l = "''G4''" and t = "392"])
    (simp_all add: exampleConstants_labels exampleConstants_lookup noteTable_def powr_neg_numeral
      powr_neg_one power_divide)

lemma entry_m1: "tableEntryOk exampleConstants (- 1)"
  by (rule tableEntryOkI [where l = "''G#4''" and t = "4153 / 10"])
    (simp_all add: exampleConstants_labels exampleConstants_lookup noteTable_def powr_neg_numeral
      powr_neg_one power_divide)

lemma entry_p0: "tableEntryOk exampleConstants (0)"
  by (rule tableEntryOkI [where l = "''A4''" and t = "440"])
    (simp_all add: exampleConstants_labels exampleConstants_lookup noteTable_def powr_neg_numeral
      powr_neg_one power_divide)

lemma entry_p1: "tableEntryOk exampleConstants (1)"
  by (rule tableEntryOkI [where l = "''A#4''" and t = "11654 / 25"])
    (simp_all add: exampleConstants_labels exampleConstants_lookup noteTable_def powr_neg_numeral
      powr_neg_one power_divide)

lemma entry_p2: "tableEntryOk exampleConstants (2)"
  by (rule tableEntryOkI [where l = "''B4''" and t = "12347 / 25"])
    (simp_all add: exampleConstants_labels exampleConstants_lookup noteTable_def powr_neg_numeral
      powr_neg_one power_divide)

lemma entry_p3: "tableEntryOk exampleConstants (3)"
  by (rule tableEntryOkI [where l = "''C5''" and t = "2093 / 4"])
    (simp_all add: exampleConstants_labels exampleConstants_lookup noteTable_def powr_neg_numeral
      powr_neg_one power_divide)

lemma entry_p4: "tableEntryOk exampleConstants (4)"
  by (rule tableEntryOkI [where l = "''C#5''" and t = "55437 / 100"])
    (simp_all add: exampleConstants_labels exampleConstants_lookup noteTable_def powr_neg_numeral
      powr_neg_one power_divide)

lemma entry_p5: "tableEntryOk exampleConstants (5)"
  by (rule tableEntryOkI [where l = "''D5''" and t = "58733 / 100"])
    (simp_all add: exampleConstants_labels exampleConstants_lookup noteTable_def powr_neg_numeral
      powr_neg_one power_divide)

lemma entry_p6: "tableEntryOk exampleConstants (6)"
  by (rule tableEntryOkI [where l = "''D#5''" and t = "2489 / 4"])
    (simp_all add: exampleConstants_labels exampleConstants_lookup noteTable_def powr_neg_numeral
      powr_neg_one power_divide)

lemma entry_p7: "tableEntryOk exampleConstants (7)"
  by (rule tableEntryOkI [where l = "''E5''" and t = "2637 / 4"])
    (simp_all add: exampleConstants_labels exampleConstants_lookup noteTable_def powr_neg_numeral
      powr_neg_one power_divide)

lemma entry_p8: "tableEntryOk exampleConstants (8)"
  by (rule tableEntryOkI [where l = "''F5''" and t = "34923 / 50"])
    (simp_all add: exampleConstants_labels exampleConstants_lookup noteTable_def powr_neg_numeral
      powr_neg_one power_divide)

lemma entry_p9: "tableEntryOk exampleConstants (9)"
  by (rule tableEntryOkI [where l = "''F#5''" and t = "73999 / 100"])
    (simp_all add: exampleConstants_labels exampleConstants_lookup noteTable_def powr_neg_numeral
      powr_neg_one power_divide)

lemma entry_p10: "tableEntryOk exampleConstants (10)"
  by (rule tableEntryOkI [where l = "''G5''" and t = "78399 / 100"])
    (simp_all add: exampleConstants_labels exampleConstants_lookup noteTable_def powr_neg_numeral
      powr_neg_one power_divide)

lemma entry_p11: "tableEntryOk exampleConstants (11)"
  by (rule tableEntryOkI [where l = "''G#5''" and t = "83061 / 100"])
    (simp_all add: exampleConstants_labels exampleConstants_lookup noteTable_def powr_neg_numeral
      powr_neg_one power_divide)

lemma entry_p12: "tableEntryOk exampleConstants (12)"
  by (rule tableEntryOkI [where l = "''A5''" and t = "880"])
    (simp_all add: exampleConstants_labels exampleConstants_lookup noteTable_def powr_neg_numeral
      powr_neg_one power_divide)

lemma entry_p13: "tableEntryOk exampleConstants (13)"
  by (rule tableEntryOkI [where l = "''A#5''" and t = "93233 / 100"])
    (simp_all add: exampleConstants_labels exampleConstants_lookup noteTable_def powr_neg_numeral
      powr_neg_one power_divide)

lemma entry_p14: "tableEntryOk exampleConstants (14)"
  by (rule tableEntryOkI [where l = "''B5''" and t = "98777 / 100"])
    (simp_all add: exampleConstants_labels exampleConstants_lookup noteTable_def powr_neg_numeral
      powr_neg_one power_divide)

lemmas exampleConstants_entries =
  entry_m30 entry_m29 entry_m28 entry_m27 entry_m26 entry_m25 entry_m24 entry_m23 entry_m22 entry_m21 entry_m20 entry_m19 entry_m18 entry_m17 entry_m16 entry_m15 entry_m14 entry_m13 entry_m12 entry_m11 entry_m10 entry_m9 entry_m8 entry_m7 entry_m6 entry_m5 entry_m4 entry_m3 entry_m2 entry_m1 entry_p0 entry_p1 entry_p2 entry_p3 entry_p4 entry_p5 entry_p6 entry_p7 entry_p8 entry_p9 entry_p10 entry_p11 entry_p12 entry_p13 entry_p14

lemma exampleConstants_table: "equalTemperedTable exampleConstants"
proof -
  have "list_all (tableEntryOk exampleConstants) [- 30..14]"
    by (simp add: exampleConstants_entries upto_rec1)
  then have "\<forall>n\<in>{- 30..14}. tableEntryOk exampleConstants n"
    by (simp only: list_all_iff set_upto)
  then show ?thesis
    unfolding equalTemperedTable_def exampleConstants_semitones by simp
qed


lemma exampleConstants_roundtrip_labels:
  "noteLabel (frequencyToNote exampleConstants 445) = ''A4''"
  "noteLabel (frequencyToNote exampleConstants 80) = ''D#2''"
  using exampleConstants_semitones
  by (simp_all add: frequencyToNote_label exampleConstants_labels exampleConstants_fields)

theorem roundtrip_within_one_semitone_witness:
  "equalTemperedTable exampleConstants \<and>
   1 \<le> MIN_FREQUENCY exampleConstants \<and>
   MIN_FREQUENCY exampleConstants \<le> 445 \<and> 445 \<le> MAX_FREQUENCY exampleConstants \<and>
   noteToFrequency exampleConstants (noteLabel (frequencyToNote exampleConstants 445)) = Some 440 \<and>
   445 / 2 powr (1 / 12) < (440 :: real) \<and> (440 :: real) < 445 * 2 powr (1 / 12) \<and>
   noteToFrequency exampleConstants (noteLabel (frequencyToNote exampleConstants 80)) = Some (7778 / 100) \<and>
   80 / 2 powr (1 / 12) < (7778 / 100 :: real) \<and> (7778 / 100 :: real) < 80 * 2 powr (1 / 12)"
proof -
  have tab: "equalTemperedTable exampleConstants" by (rule exampleConstants_table)
  have rng: "1 \<le> MIN_FREQUENCY exampleConstants" "MIN_FREQUENCY exampleConstants \<le> 445"
    "445 \<le> MAX_FREQUENCY exampleConstants" "MIN_FREQUENCY exampleConstants \<le> 80"
    "80 \<le> MAX_FREQUENCY exampleConstants"
    by (simp_all add: exampleConstants_fields)
  have a: "noteToFrequency exampleConstants (noteLabel (frequencyToNote exampleConstants 445)) = Some 440"
    by (simp add: exampleConstants_roundtrip_labels noteToFrequency_def exampleConstants_lookup
        noteTable_def)
  have b: "noteToFrequency exampleConstants (noteLabel (frequencyToNote exampleConstants 80))
             = Some (7778 / 100)"
    by (simp add: exampleConstants_roundtrip_labels noteToFrequency_def exampleConstants_lookup
        noteTable_def)
  obtain t where t: "noteToFrequency exampleConstants (noteLabel (frequencyToNote exampleConstants 445)) = Some t"
      "445 / 2 powr (1 / 12) < t" "t < 445 * 2 powr (1 / 12)"
    using roundtrip_within_one_semitone [of exampleConstants 445] tab rng by blast
  obtain u where u: "noteToFrequency exampleConstants (noteLabel (frequencyToNote exampleConstants 80)) = Some u"
      "80 / 2 powr (1 / 12) < u" "u < 80 * 2 powr (1 / 12)"
    using roundtrip_within_one_semitone [of exampleConstants 80] tab rng by blast
  have "t = 440" using t(1) unfolding a by simp
  moreover have "u = 7778 / 100" using u(1) unfolding b by simp
  ultimately show ?thesis using tab rng a b t(2,3) u(2,3) by blast
qed

end
